theory Spec2Isabelle
  imports Complex_Main
begin

section \<open>Shared data\<close>

text \<open>
  Both components declare \<^verbatim>\<open>interface Position { x: number; y: number }\<close>.
  The grid game only ever stores whole numbers in it (the start cell, steps of one cell,
  floored random cells), so its positions are \<open>int Position\<close>; the continuous game
  stores arbitrary numbers, taken as \<open>real Position\<close>.
\<close>

record 'n Position =
  pos_x :: 'n
  pos_y :: 'n

section \<open>Double-precision arithmetic\<close>

text \<open>
  A product of two numbers is the exact product rounded to the nearest double, ties to
  the even significand: 53 significant bits, least exponent \<open>- 1074\<close>. Overflow is left
  out (it needs a magnitude of \<open>2 ^ 1024\<close>). \<open>isDouble\<close> says that a real is the value
  of a finite double, as every result of \<^verbatim>\<open>Math.random()\<close> is.
\<close>

definition roundTiesToEven :: "real \<Rightarrow> int" where
  "roundTiesToEven y =
     (let n = \<lfloor>y\<rfloor>; f = y - of_int n
      in if f < 1 / 2 then n
         else if 1 / 2 < f then n + 1
         else if even n then n
         else n + 1)"

definition roundDouble :: "real \<Rightarrow> real" where
  "roundDouble x =
     (if x = 0 then 0
      else (let e = max (\<lfloor>log 2 \<bar>x\<bar>\<rfloor> - 52) (- 1074)
            in of_int (roundTiesToEven (x / 2 powr of_int e)) * 2 powr of_int e))"

definition isDouble :: "real \<Rightarrow> bool" where
  "isDouble x =
     (\<exists>m e. \<bar>m\<bar> < 2 ^ 53 \<and> - 1074 \<le> e \<and> e \<le> 971 \<and> x = of_int m * 2 powr of_int e)"

section \<open>The grid game (SnakeGame.tsx)\<close>

subsection \<open>State\<close>

text \<open>
  The direction is a string state that is only ever set to one of four literals; a key
  event carries \<^verbatim>\<open>e.key\<close>, of which the handler distinguishes five values.
\<close>

datatype Direction = UP | DOWN | LEFT | RIGHT

datatype Key = ArrowUp | ArrowDown | ArrowLeft | ArrowRight | Space | OtherKey

definition GRID_SIZE :: real where
  "GRID_SIZE = 20"

definition CANVAS_WIDTH :: real where
  "CANVAS_WIDTH = 600"

definition CANVAS_HEIGHT :: real where
  "CANVAS_HEIGHT = 400"

text \<open>The six \<^verbatim>\<open>useState\<close> cells of the component, as one record.\<close>

record SnakeGame =
  snake :: "int Position list"
  food :: "int Position"
  direction :: Direction
  gameOver :: bool
  score :: int
  gameRunning :: bool

definition initialGame :: SnakeGame where
  "initialGame =
     \<lparr>snake = [\<lparr>pos_x = 10, pos_y = 10\<rparr>], food = \<lparr>pos_x = 15, pos_y = 15\<rparr>,
      direction = RIGHT, gameOver = False, score = 0, gameRunning = False\<rparr>"

subsection \<open>Operations\<close>

text \<open>
  \<^verbatim>\<open>generateFood\<close> calls \<^verbatim>\<open>Math.random()\<close> twice; the two results are
  the parameters \<open>r1\<close> and \<open>r2\<close> (doubles in the half-open interval from 0 to 1).
  The quotients and the two products are double operations; \<^verbatim>\<open>Math.floor\<close> and the
  subtraction of 1 from a whole number are exact.
\<close>

definition generateFood :: "real \<Rightarrow> real \<Rightarrow> int Position" where
  "generateFood r1 r2 =
     (let maxX = \<lfloor>roundDouble (CANVAS_WIDTH / GRID_SIZE)\<rfloor> - 1;
          maxY = \<lfloor>roundDouble (CANVAS_HEIGHT / GRID_SIZE)\<rfloor> - 1
      in \<lparr>pos_x = \<lfloor>roundDouble (r1 * of_int maxX)\<rfloor>,
          pos_y = \<lfloor>roundDouble (r2 * of_int maxY)\<rfloor>\<rparr>)"

definition resetGame :: "real \<Rightarrow> real \<Rightarrow> SnakeGame \<Rightarrow> SnakeGame" where
  "resetGame r1 r2 st =
     st\<lparr>snake := [\<lparr>pos_x = 10, pos_y = 10\<rparr>], food := generateFood r1 r2,
        direction := RIGHT, gameOver := False, score := 0, gameRunning := False\<rparr>"

fun startGame :: "SnakeGame \<Rightarrow> SnakeGame" where
  "startGame st =
     (if \<not> gameRunning st \<and> \<not> gameOver st then st\<lparr>gameRunning := True\<rparr> else st)"

text \<open>The \<^verbatim>\<open>switch (direction)\<close> of \<^verbatim>\<open>moveSnake\<close>, on a copy of the head.\<close>

fun nextHead :: "Direction \<Rightarrow> int Position \<Rightarrow> int Position" where
  "nextHead UP h = h\<lparr>pos_y := pos_y h - 1\<rparr>"
| "nextHead DOWN h = h\<lparr>pos_y := pos_y h + 1\<rparr>"
| "nextHead LEFT h = h\<lparr>pos_x := pos_x h - 1\<rparr>"
| "nextHead RIGHT h = h\<lparr>pos_x := pos_x h + 1\<rparr>"

text \<open>The wall test and the self-collision test (\<^verbatim>\<open>newSnake.some(...)\<close>).\<close>

definition hitsWall :: "int Position \<Rightarrow> bool" where
  "hitsWall h =
     (pos_x h < 0 \<or> of_int (pos_x h) \<ge> CANVAS_WIDTH / GRID_SIZE \<or>
      pos_y h < 0 \<or> of_int (pos_y h) \<ge> CANVAS_HEIGHT / GRID_SIZE)"

definition hitsSelf :: "int Position list \<Rightarrow> int Position \<Rightarrow> bool" where
  "hitsSelf body h = list_ex (\<lambda>segment. pos_x segment = pos_x h \<and> pos_y segment = pos_y h) body"

definition onFood :: "int Position \<Rightarrow> int Position \<Rightarrow> bool" where
  "onFood h f = (pos_x h = pos_x f \<and> pos_y h = pos_y f)"

text \<open>
  One tick. The state updates that the source queues from inside the \<^verbatim>\<open>setSnake\<close>
  updater are applied to the record at once. \<open>r1\<close> and \<open>r2\<close> are what
  \<^verbatim>\<open>Math.random()\<close> returns if this tick calls \<^verbatim>\<open>generateFood\<close>.
  On an empty segment list the source moves nothing: the copied head has no coordinates,
  every comparison with them is false, and the pushed head is popped again.
\<close>

fun moveSnake :: "real \<Rightarrow> real \<Rightarrow> SnakeGame \<Rightarrow> SnakeGame" where
  "moveSnake r1 r2 st =
     (if \<not> gameRunning st \<or> gameOver st then st
      else
        (case snake st of
           [] \<Rightarrow> st
         | h # _ \<Rightarrow>
             (let head = nextHead (direction st) h in
              if hitsWall head then st\<lparr>gameOver := True, gameRunning := False\<rparr>
              else if hitsSelf (snake st) head then st\<lparr>gameOver := True, gameRunning := False\<rparr>
              else if onFood head (food st)
                then st\<lparr>snake := head # snake st, food := generateFood r1 r2,
                        score := score st + 10\<rparr>
                else st\<lparr>snake := butlast (head # snake st)\<rparr>)))"

fun handleKeyPress :: "Key \<Rightarrow> SnakeGame \<Rightarrow> SnakeGame" where
  "handleKeyPress k st =
     (if \<not> gameRunning st \<and> \<not> gameOver st then st
      else
        (case k of
           ArrowUp \<Rightarrow> if direction st \<noteq> DOWN then st\<lparr>direction := UP\<rparr> else st
         | ArrowDown \<Rightarrow> if direction st \<noteq> UP then st\<lparr>direction := DOWN\<rparr> else st
         | ArrowLeft \<Rightarrow> if direction st \<noteq> RIGHT then st\<lparr>direction := LEFT\<rparr> else st
         | ArrowRight \<Rightarrow> if direction st \<noteq> LEFT then st\<lparr>direction := RIGHT\<rparr> else st
         | Space \<Rightarrow> startGame st
         | OtherKey \<Rightarrow> st))"

text \<open>The key events that arrive between two ticks, handled one after the other.\<close>

fun handleKeys :: "Key list \<Rightarrow> SnakeGame \<Rightarrow> SnakeGame" where
  "handleKeys [] st = st"
| "handleKeys (k # ks) st = handleKeys ks (handleKeyPress k st)"

fun opposite :: "Direction \<Rightarrow> Direction" where
  "opposite UP = DOWN"
| "opposite DOWN = UP"
| "opposite LEFT = RIGHT"
| "opposite RIGHT = LEFT"

text \<open>
  Whether a tick consumes the food: the moved head passes both collision tests, which
  the source makes first, and lies on the food cell.
\<close>

definition eats :: "SnakeGame \<Rightarrow> bool" where
  "eats st =
     (case snake st of
        [] \<Rightarrow> False
      | h # _ \<Rightarrow>
          \<not> hitsWall (nextHead (direction st) h) \<and>
          \<not> hitsSelf (snake st) (nextHead (direction st) h) \<and>
          onFood (nextHead (direction st) h) (food st))"

subsection \<open>Concrete states of the grid game\<close>

text \<open>A game in play: the start state after \<^verbatim>\<open>startGame\<close>.\<close>

definition runningGame :: SnakeGame where
  "runningGame = startGame initialGame"

text \<open>
  A snake of three segments heading down towards the food at (10,10), and the state one
  tick and one key later: the snake has eaten and has four segments curled into a square,
  the food spawned by that meal lies under its tail at (11,10), and the player has turned
  right.
\<close>

definition beforeCurlGame :: SnakeGame where
  "beforeCurlGame =
     \<lparr>snake = [\<lparr>pos_x = 10, pos_y = 9\<rparr>, \<lparr>pos_x = 11, pos_y = 9\<rparr>,
               \<lparr>pos_x = 11, pos_y = 10\<rparr>],
      food = \<lparr>pos_x = 10, pos_y = 10\<rparr>,
      direction = DOWN, gameOver = False, score = 20, gameRunning = True\<rparr>"

definition curledGame :: SnakeGame where
  "curledGame =
     \<lparr>snake = [\<lparr>pos_x = 10, pos_y = 10\<rparr>, \<lparr>pos_x = 10, pos_y = 9\<rparr>,
               \<lparr>pos_x = 11, pos_y = 9\<rparr>, \<lparr>pos_x = 11, pos_y = 10\<rparr>],
      food = \<lparr>pos_x = 11, pos_y = 10\<rparr>,
      direction = RIGHT, gameOver = False, score = 30, gameRunning = True\<rparr>"

text \<open>The same curled snake with the food away from it.\<close>

definition curledGameFoodAway :: SnakeGame where
  "curledGameFoodAway = curledGame\<lparr>food := \<lparr>pos_x = 15, pos_y = 15\<rparr>\<rparr>"

text \<open>A snake of two segments moving right along row 10.\<close>

definition twoSegmentGame :: SnakeGame where
  "twoSegmentGame =
     \<lparr>snake = [\<lparr>pos_x = 10, pos_y = 10\<rparr>, \<lparr>pos_x = 9, pos_y = 10\<rparr>],
      food = \<lparr>pos_x = 15, pos_y = 15\<rparr>,
      direction = RIGHT, gameOver = False, score = 10, gameRunning = True\<rparr>"

text \<open>A snake in the last column moving right, and the state after it hit the wall.\<close>

definition atWallGame :: SnakeGame where
  "atWallGame =
     \<lparr>snake = [\<lparr>pos_x = 29, pos_y = 10\<rparr>], food = \<lparr>pos_x = 15, pos_y = 15\<rparr>,
      direction = RIGHT, gameOver = False, score = 0, gameRunning = True\<rparr>"

definition crashedGame :: SnakeGame where
  "crashedGame = atWallGame\<lparr>gameOver := True, gameRunning := False\<rparr>"

text \<open>A snake of one segment one step left of the food, about to eat it.\<close>

definition beforeFoodGame :: SnakeGame where
  "beforeFoodGame =
     \<lparr>snake = [\<lparr>pos_x = 10, pos_y = 10\<rparr>], food = \<lparr>pos_x = 11, pos_y = 10\<rparr>,
      direction = RIGHT, gameOver = False, score = 0, gameRunning = True\<rparr>"

declare moveSnake.simps [simp del]
declare handleKeyPress.simps [simp del]
declare startGame.simps [simp del]

section \<open>The continuous game (SlitherGame.tsx)\<close>

subsection \<open>State\<close>

text \<open>
  Numbers are taken as reals: every coordinate, angle and size of a game is a finite
  double, and no property below depends on rounding. The component's canvas constants carry
  the prefix \<open>SLITHER\<close>, since the grid game has constants of the same names and other
  values. The fields \<open>snake_id\<close>, \<open>snake_color\<close>, \<open>snake_direction\<close>,
  \<open>food_x\<close>, \<open>food_y\<close>, \<open>food_color\<close> and \<open>food_size\<close> are the source's
  \<^verbatim>\<open>id\<close>, \<^verbatim>\<open>color\<close>, \<^verbatim>\<open>direction\<close>, \<^verbatim>\<open>x\<close>, \<^verbatim>\<open>y\<close>,
  \<^verbatim>\<open>color\<close> and \<^verbatim>\<open>size\<close>.
\<close>

definition SLITHER_CANVAS_WIDTH :: real where
  "SLITHER_CANVAS_WIDTH = 800"

definition SLITHER_CANVAS_HEIGHT :: real where
  "SLITHER_CANVAS_HEIGHT = 600"

definition WORLD_WIDTH :: real where
  "WORLD_WIDTH = 2000"

definition WORLD_HEIGHT :: real where
  "WORLD_HEIGHT = 1500"

definition SEGMENT_SIZE :: real where
  "SEGMENT_SIZE = 8"

definition FOOD_COUNT :: nat where
  "FOOD_COUNT = 200"

definition AI_SNAKE_COUNT :: nat where
  "AI_SNAKE_COUNT = 5"

text \<open>
  A colour is the string \<^verbatim>\<open>hsl(var(--primary))\<close> or a string
  \<^verbatim>\<open>hsl(h, s%, l%)\<close> built from a random hue; an id is the string
  \<^verbatim>\<open>player\<close> or \<^verbatim>\<open>ai_n\<close> for a number \<open>n\<close>. Two ids are equal exactly
  when the strings are.
\<close>

datatype Color = Primary | Hsl real nat nat

datatype SnakeId = PlayerId | AiId nat

record Snake =
  snake_id :: SnakeId
  segments :: "real Position list"
  snake_color :: Color
  isPlayer :: bool
  snake_direction :: real
  speed :: real
  isDead :: bool

record Food =
  food_x :: real
  food_y :: real
  food_color :: Color
  food_size :: real

text \<open>
  \<^verbatim>\<open>Math.random()\<close> is a sequence of numbers given from outside: \<open>rnd n\<close> is
  what the call number \<open>n\<close> returns, and the state counts the calls made so far in
  \<open>draws\<close>. \<^verbatim>\<open>Date.now()\<close> is a clock given from outside as well.
\<close>

type_synonym Random = "nat \<Rightarrow> real"

text \<open>
  The two refs and the five state cells of the component. State updates queued by
  \<^verbatim>\<open>setScore\<close>, \<^verbatim>\<open>setGameOver\<close>, \<^verbatim>\<open>setGameRunning\<close> and
  \<^verbatim>\<open>setCamera\<close> are applied to the record at once; within one frame the source
  reads none of them back after queuing.
\<close>

record SlitherGame =
  snakesRef :: "Snake list"
  foodRef :: "Food list"
  slither_score :: int
  slither_running :: bool
  slither_over :: bool
  mousePos :: "real Position"
  camera :: "real Position"
  draws :: nat

subsection \<open>Creating food and actors\<close>

text \<open>The food literal, written twice in the source; its four draws are made in order.\<close>

definition randomFood :: "Random \<Rightarrow> nat \<Rightarrow> Food" where
  "randomFood rnd n =
     \<lparr>food_x = rnd n * WORLD_WIDTH, food_y = rnd (n + 1) * WORLD_HEIGHT,
      food_color = Hsl (rnd (n + 2) * 360) 70 60, food_size = 3 + rnd (n + 3) * 3\<rparr>"

definition slither_generateFood :: "Random \<Rightarrow> nat \<Rightarrow> Food list" where
  "slither_generateFood rnd n = map (\<lambda>i. randomFood rnd (n + 4 * i)) [0..<FOOD_COUNT]"

text \<open>\<^verbatim>\<open>createSnake\<close> returns the actor and the number of draws made after it.\<close>

definition createSnake :: "Random \<Rightarrow> nat \<Rightarrow> real \<Rightarrow> real \<Rightarrow> bool \<Rightarrow> SnakeId \<Rightarrow> Snake \<times> nat" where
  "createSnake rnd n x y player ident =
     (let segs = map (\<lambda>i. \<lparr>pos_x = x - of_nat i * SEGMENT_SIZE, pos_y = y\<rparr>) [0..<5];
          n1 = (if player then n else n + 1)
      in (\<lparr>snake_id = ident, segments = segs,
           snake_color = (if player then Primary else Hsl (rnd n * 360) 70 50),
           isPlayer = player, snake_direction = rnd n1 * pi * 2, speed = 2, isDead = False\<rparr>,
          n1 + 1))"

text \<open>An actor created away from the player: position from two draws, then the actor.\<close>

definition createRandomSnake :: "Random \<Rightarrow> nat \<Rightarrow> SnakeId \<Rightarrow> Snake \<times> nat" where
  "createRandomSnake rnd n ident =
     createSnake rnd (n + 2) (rnd n * WORLD_WIDTH) (rnd (n + 1) * WORLD_HEIGHT) False ident"

fun createAISnakes :: "Random \<Rightarrow> nat \<Rightarrow> nat \<Rightarrow> Snake list \<times> nat \<Rightarrow> Snake list \<times> nat" where
  "createAISnakes rnd i 0 acc = acc"
| "createAISnakes rnd i (Suc k) (snakes, n) =
     (let (sn, n1) = createRandomSnake rnd n (AiId i)
      in createAISnakes rnd (Suc i) k (snakes @ [sn], n1))"

definition initializeGame :: "Random \<Rightarrow> SlitherGame \<Rightarrow> SlitherGame" where
  "initializeGame rnd st =
     (let (player, n0) = createSnake rnd (draws st) (WORLD_WIDTH / 2) (WORLD_HEIGHT / 2) True PlayerId;
          (snakes, n1) = createAISnakes rnd 0 AI_SNAKE_COUNT ([player], n0)
      in st\<lparr>snakesRef := snakes, foodRef := slither_generateFood rnd n1,
            slither_score := 0, slither_over := False, draws := n1 + 4 * FOOD_COUNT\<rparr>)"

definition slither_startGame :: "Random \<Rightarrow> SlitherGame \<Rightarrow> SlitherGame" where
  "slither_startGame rnd st = (initializeGame rnd st)\<lparr>slither_running := True\<rparr>"

subsection \<open>Steering of the other actors\<close>

definition distance :: "real \<Rightarrow> real \<Rightarrow> real Position \<Rightarrow> real" where
  "distance px py head = sqrt ((px - pos_x head)\<^sup>2 + (py - pos_y head)\<^sup>2)"

text \<open>
  The host's \<^verbatim>\<open>Math.atan2(y, x)\<close> on reals: the angle of the point \<open>(x, y)\<close>, between
  \<open>- pi\<close> and \<open>pi\<close>, and 0 at the origin.
\<close>

definition atan2 :: "real \<Rightarrow> real \<Rightarrow> real" where
  "atan2 y x =
     (if 0 < x then arctan (y / x)
      else if x < 0 then (if 0 \<le> y then arctan (y / x) + pi else arctan (y / x) - pi)
      else if 0 < y then pi / 2
      else if y < 0 then - pi / 2
      else 0)"

text \<open>
  The scan for the nearest food starts from \<^verbatim>\<open>minDistance = Infinity\<close> and no food
  (\<open>None\<close> here) and replaces the candidate only on a strictly smaller distance.
\<close>

definition nearestFood :: "real Position \<Rightarrow> Food list \<Rightarrow> Food option" where
  "nearestFood head foods =
     map_option snd
       (fold (\<lambda>f best.
                let d = distance (food_x f) (food_y f) head
                in (case best of
                      None \<Rightarrow> Some (d, f)
                    | Some (minDistance, _) \<Rightarrow> if d < minDistance then Some (d, f) else best))
          foods None)"

text \<open>The two loops that bring the angle difference into the range from \<open>- pi\<close> to \<open>pi\<close>.\<close>

function normalizeDown :: "real \<Rightarrow> real" where
  "normalizeDown d = (if d > pi then normalizeDown (d - 2 * pi) else d)"
  by pat_completeness auto
termination
proof (relation "measure (\<lambda>d. nat \<lceil>d / (2 * pi)\<rceil>)")
  show "wf (measure (\<lambda>d. nat \<lceil>d / (2 * pi)\<rceil>))"
    by simp
next
  fix d :: real
  assume "pi < d"
  with pi_gt_zero have "0 < d"
    by linarith
  with pi_gt_zero have "0 < d / (2 * pi)"
    by (intro divide_pos_pos) simp_all
  then have pos: "0 < \<lceil>d / (2 * pi)\<rceil>"
    by (simp only: less_ceiling_iff of_int_0)
  have e: "(d - 2 * pi) / (2 * pi) = d / (2 * pi) - 1"
    using pi_gt_zero by (simp add: field_simps)
  have "\<lceil>(d - 2 * pi) / (2 * pi)\<rceil> = \<lceil>d / (2 * pi)\<rceil> - 1"
    by (simp only: e ceiling_diff_one)
  with pos have "nat \<lceil>(d - 2 * pi) / (2 * pi)\<rceil> < nat \<lceil>d / (2 * pi)\<rceil>"
    by linarith
  then show "(d - 2 * pi, d) \<in> measure (\<lambda>d. nat \<lceil>d / (2 * pi)\<rceil>)"
    by (simp only: in_measure)
qed

function normalizeUp :: "real \<Rightarrow> real" where
  "normalizeUp d = (if d < - pi then normalizeUp (d + 2 * pi) else d)"
  by pat_completeness auto
termination
proof (relation "measure (\<lambda>d. nat \<lceil>(- d) / (2 * pi)\<rceil>)")
  show "wf (measure (\<lambda>d. nat \<lceil>(- d) / (2 * pi)\<rceil>))"
    by simp
next
  fix d :: real
  assume "d < - pi"
  with pi_gt_zero have "0 < - d"
    by linarith
  with pi_gt_zero have "0 < (- d) / (2 * pi)"
    by (intro divide_pos_pos) simp_all
  then have pos: "0 < \<lceil>(- d) / (2 * pi)\<rceil>"
    by (simp only: less_ceiling_iff of_int_0)
  have e: "(- (d + 2 * pi)) / (2 * pi) = (- d) / (2 * pi) - 1"
    using pi_gt_zero by (simp add: field_simps)
  have "\<lceil>(- (d + 2 * pi)) / (2 * pi)\<rceil> = \<lceil>(- d) / (2 * pi)\<rceil> - 1"
    by (simp only: e ceiling_diff_one)
  with pos have "nat \<lceil>(- (d + 2 * pi)) / (2 * pi)\<rceil> < nat \<lceil>(- d) / (2 * pi)\<rceil>"
    by linarith
  then show "(d + 2 * pi, d) \<in> measure (\<lambda>d. nat \<lceil>(- d) / (2 * pi)\<rceil>)"
    by (simp only: in_measure)
qed

declare normalizeDown.simps [simp del]
declare normalizeUp.simps [simp del]

text \<open>
  \<^verbatim>\<open>updateAI\<close> changes the direction of a living actor that is not the player. It
  reads the head before the scan; with no segment the head is \<^verbatim>\<open>undefined\<close>, and
  the first food visited raises a TypeError (\<open>None\<close> here).
\<close>

definition updateAI :: "Food list \<Rightarrow> Snake \<Rightarrow> Snake option" where
  "updateAI foods sn =
     (if isPlayer sn \<or> isDead sn then Some sn
      else
        (case segments sn of
           [] \<Rightarrow> if foods = [] then Some sn else None
         | head # _ \<Rightarrow>
             (case nearestFood head foods of
                None \<Rightarrow> Some sn
              | Some nf \<Rightarrow>
                  (let targetAngle = atan2 (food_y nf - pos_y head) (food_x nf - pos_x head);
                       angleDiff = targetAngle - snake_direction sn;
                       normalizedDiff = normalizeUp (normalizeDown angleDiff);
                       turnSpeed = 0.05
                   in Some (if \<bar>normalizedDiff\<bar> > turnSpeed
                            then sn\<lparr>snake_direction :=
                                      snake_direction sn + sgn normalizedDiff * turnSpeed\<rparr>
                            else sn\<lparr>snake_direction := targetAngle\<rparr>)))))"

subsection \<open>The per-frame update of one actor\<close>

text \<open>The head moved along the actor's direction and kept in bounds.\<close>

definition movedHead :: "Snake \<Rightarrow> real Position \<Rightarrow> real Position" where
  "movedHead sn h =
     \<lparr>pos_x = max SEGMENT_SIZE (min (WORLD_WIDTH - SEGMENT_SIZE)
                (pos_x h + cos (snake_direction sn) * speed sn)),
      pos_y = max SEGMENT_SIZE (min (WORLD_HEIGHT - SEGMENT_SIZE)
                (pos_y h + sin (snake_direction sn) * speed sn))\<rparr>"

definition eatsFood :: "real Position \<Rightarrow> Food \<Rightarrow> bool" where
  "eatsFood head f = (distance (food_x f) (food_y f) head < SEGMENT_SIZE + food_size f)"

text \<open>
  The food test is \<^verbatim>\<open>foodRef.current = foodRef.current.filter(callback)\<close>.
  \<^verbatim>\<open>filter\<close> reads the length of the array it is called on once, visits the
  indices below that length, and collects the elements for which the callback returns
  true into a new array. While it runs, \<^verbatim>\<open>foodRef.current\<close> is still the array it
  was called on (\<open>receiver\<close>), so the callback's \<^verbatim>\<open>push\<close> appends there, beyond
  the indices that are visited; the assignment then makes \<^verbatim>\<open>foodRef.current\<close> the
  new array (\<open>kept\<close>). The record holds what the callback reads and writes.
\<close>

record FoodScan =
  receiver :: "Food list"
  kept :: "Food list"
  ate :: bool
  scan_score :: int
  scan_draws :: nat

definition foodCallback :: "Random \<Rightarrow> bool \<Rightarrow> real Position \<Rightarrow> Food \<Rightarrow> FoodScan \<Rightarrow> FoodScan" where
  "foodCallback rnd player head f sc =
     (if eatsFood head f
      then sc\<lparr>ate := True,
              scan_score := (if player then scan_score sc + 1 else scan_score sc),
              receiver := receiver sc @ [randomFood rnd (scan_draws sc)],
              scan_draws := scan_draws sc + 4\<rparr>
      else sc\<lparr>kept := kept sc @ [f]\<rparr>)"

text \<open>\<open>filterFood rnd player head k n\<close>: the visits of the indices \<open>k, ..., k + n - 1\<close>.\<close>

fun filterFood :: "Random \<Rightarrow> bool \<Rightarrow> real Position \<Rightarrow> nat \<Rightarrow> nat \<Rightarrow> FoodScan \<Rightarrow> FoodScan" where
  "filterFood rnd player head k 0 sc = sc"
| "filterFood rnd player head k (Suc n) sc =
     filterFood rnd player head (Suc k) n
       (if k < length (receiver sc)
        then foodCallback rnd player head (receiver sc ! k) sc
        else sc)"

text \<open>
  The test against the other actors: an actor with the same id or a dead one is skipped,
  and so is the first segment of every actor that is tested.
\<close>

definition hitsOther :: "Snake list \<Rightarrow> Snake \<Rightarrow> real Position \<Rightarrow> bool" where
  "hitsOther snakes sn head =
     list_ex (\<lambda>otherSnake.
        \<not> (snake_id otherSnake = snake_id sn \<or> isDead otherSnake) \<and>
        list_ex (\<lambda>(index, segment).
           \<not> (index = 0 \<and> snake_id otherSnake \<noteq> snake_id sn) \<and>
           distance (pos_x segment) (pos_y segment) head < SEGMENT_SIZE)
          (enumerate 0 (segments otherSnake)))
       snakes"

text \<open>
  The player's direction is the angle from its head to the pointer, the pointer being
  taken to world coordinates with the camera offset and half the canvas size.
\<close>

definition steerPlayer :: "SlitherGame \<Rightarrow> Snake \<Rightarrow> real Position \<Rightarrow> Snake" where
  "steerPlayer st sn head =
     (if isPlayer sn
      then (let mouseWorldX = pos_x (mousePos st) + pos_x (camera st) - SLITHER_CANVAS_WIDTH / 2;
                mouseWorldY = pos_y (mousePos st) + pos_y (camera st) - SLITHER_CANVAS_HEIGHT / 2
            in sn\<lparr>snake_direction := atan2 (mouseWorldY - pos_y head) (mouseWorldX - pos_x head)\<rparr>)
      else sn)"

text \<open>
  \<^verbatim>\<open>updateSnake\<close> on the actor at index \<open>i\<close> of \<^verbatim>\<open>snakesRef.current\<close>; the
  source mutates that object in place. An actor without segments has no head to read:
  the source raises a TypeError or computes with \<^verbatim>\<open>undefined\<close> coordinates, and
  the model has no value (\<open>None\<close>). \<^verbatim>\<open>createSnake\<close> builds five segments and no
  update empties the list.
\<close>

fun updateSnake :: "Random \<Rightarrow> nat \<Rightarrow> SlitherGame \<Rightarrow> SlitherGame option" where
  "updateSnake rnd i st =
     (if length (snakesRef st) \<le> i then None
      else if isDead (snakesRef st ! i) then Some st
      else
        (case updateAI (foodRef st) (snakesRef st ! i) of
           None \<Rightarrow> None
         | Some sn1 \<Rightarrow>
             (case segments sn1 of
                [] \<Rightarrow> None
              | h # _ \<Rightarrow>
                  (let sn2 = steerPlayer st sn1 h;
                       head = movedHead sn2 h;
                       sc = filterFood rnd (isPlayer sn2) head 0 (length (foodRef st))
                              \<lparr>receiver = foodRef st, kept = [], ate = False,
                               scan_score = slither_score st, scan_draws = draws st\<rparr>;
                       sn3 = sn2\<lparr>segments := (if ate sc then head # segments sn2
                                               else butlast (head # segments sn2))\<rparr>;
                       dead = hitsOther ((snakesRef st)[i := sn3]) sn3 head;
                       sn4 = (if dead then sn3\<lparr>isDead := True\<rparr> else sn3)
                   in Some (st\<lparr>snakesRef := (snakesRef st)[i := sn4],
                               foodRef := kept sc,
                               slither_score := scan_score sc,
                               draws := scan_draws sc,
                               slither_over := (if dead \<and> isPlayer sn3 then True else slither_over st),
                               slither_running :=
                                 (if dead \<and> isPlayer sn3 then False else slither_running st)\<rparr>)))))"

subsection \<open>The frame\<close>

text \<open>\<^verbatim>\<open>snakesRef.current.forEach(updateSnake)\<close>: the indices \<open>k, ..., k + n - 1\<close>.\<close>

fun forEachUpdate :: "Random \<Rightarrow> nat \<Rightarrow> nat \<Rightarrow> SlitherGame \<Rightarrow> SlitherGame option" where
  "forEachUpdate rnd k 0 st = Some st"
| "forEachUpdate rnd k (Suc n) st =
     (case updateSnake rnd k st of
        None \<Rightarrow> None
      | Some st1 \<Rightarrow> forEachUpdate rnd (Suc k) n st1)"

text \<open>The camera follows the head of the first actor marked as the player, while it lives.\<close>

definition updateCamera :: "SlitherGame \<Rightarrow> SlitherGame option" where
  "updateCamera st =
     (case find isPlayer (snakesRef st) of
        None \<Rightarrow> Some st
      | Some playerSnake \<Rightarrow>
          if isDead playerSnake then Some st
          else
            (case segments playerSnake of
               [] \<Rightarrow> None
             | head # _ \<Rightarrow>
                 Some (st\<lparr>camera := \<lparr>pos_x = pos_x head - SLITHER_CANVAS_WIDTH / 2,
                                      pos_y = pos_y head - SLITHER_CANVAS_HEIGHT / 2\<rparr>\<rparr>)))"

text \<open>
  The removal of dead actors is the same idiom as the food test:
  \<^verbatim>\<open>snakesRef.current = snakesRef.current.filter(callback)\<close>, with a callback that
  pushes the replacement onto \<^verbatim>\<open>snakesRef.current\<close>, the array being filtered.
  \<open>clock k\<close> is what \<^verbatim>\<open>Date.now()\<close> returns during the visit of index \<open>k\<close>.
\<close>

record SnakeScan =
  snake_receiver :: "Snake list"
  snake_kept :: "Snake list"
  snake_draws :: nat

definition snakeCallback :: "Random \<Rightarrow> nat \<Rightarrow> Snake \<Rightarrow> SnakeScan \<Rightarrow> SnakeScan" where
  "snakeCallback rnd now sn sc =
     (if \<not> isPlayer sn \<and> isDead sn
      then (let (fresh, n) = createRandomSnake rnd (snake_draws sc) (AiId now)
            in sc\<lparr>snake_receiver := snake_receiver sc @ [fresh], snake_draws := n\<rparr>)
      else sc\<lparr>snake_kept := snake_kept sc @ [sn]\<rparr>)"

fun filterSnakes :: "Random \<Rightarrow> (nat \<Rightarrow> nat) \<Rightarrow> nat \<Rightarrow> nat \<Rightarrow> SnakeScan \<Rightarrow> SnakeScan" where
  "filterSnakes rnd clock k 0 sc = sc"
| "filterSnakes rnd clock k (Suc n) sc =
     filterSnakes rnd clock (Suc k) n
       (if k < length (snake_receiver sc)
        then snakeCallback rnd (clock k) (snake_receiver sc ! k) sc
        else sc)"

text \<open>The removal and replacement phase of \<^verbatim>\<open>gameLoop\<close>.\<close>

definition replaceDeadSnakes :: "Random \<Rightarrow> (nat \<Rightarrow> nat) \<Rightarrow> SlitherGame \<Rightarrow> SlitherGame" where
  "replaceDeadSnakes rnd clock st =
     (let sc = filterSnakes rnd clock 0 (length (snakesRef st))
                 \<lparr>snake_receiver = snakesRef st, snake_kept = [], snake_draws = draws st\<rparr>
      in st\<lparr>snakesRef := snake_kept sc, draws := snake_draws sc\<rparr>)"

text \<open>One frame; the request for the next frame is not part of the state.\<close>

fun gameLoop :: "Random \<Rightarrow> (nat \<Rightarrow> nat) \<Rightarrow> SlitherGame \<Rightarrow> SlitherGame option" where
  "gameLoop rnd clock st =
     (if \<not> slither_running st \<or> slither_over st then Some st
      else
        (case forEachUpdate rnd 0 (length (snakesRef st)) st of
           None \<Rightarrow> None
         | Some st1 \<Rightarrow>
             (case updateCamera st1 of
                None \<Rightarrow> None
              | Some st2 \<Rightarrow> Some (replaceDeadSnakes rnd clock st2))))"

declare updateSnake.simps [simp del]
declare gameLoop.simps [simp del]

subsection \<open>Concrete states of the continuous game\<close>

text \<open>A random source that returns 0 at every call.\<close>

definition noRandom :: Random where
  "noRandom = (\<lambda>n. 0)"

text \<open>A food item at the centre of the world and one in its corner.\<close>

definition centreFood :: Food where
  "centreFood = \<lparr>food_x = 1000, food_y = 750, food_color = Hsl 0 70 60, food_size = 3\<rparr>"

definition cornerFood :: Food where
  "cornerFood = \<lparr>food_x = 0, food_y = 0, food_color = Hsl 0 70 60, food_size = 3\<rparr>"

text \<open>
  The player as \<^verbatim>\<open>initializeGame\<close> creates it, and the other actors created the same
  way at places away from it.
\<close>

definition playerSnake :: Snake where
  "playerSnake = fst (createSnake noRandom 0 (WORLD_WIDTH / 2) (WORLD_HEIGHT / 2) True PlayerId)"

definition aiSnake :: "nat \<Rightarrow> Snake" where
  "aiSnake i = fst (createSnake noRandom 0 (200 + 300 * of_nat i) 200 False (AiId i))"

text \<open>
  The state at the first frame of a game: the six actors, a pool of 200 food items of
  which one lies at the centre of the world, the pointer in the middle of the canvas and
  the camera at the origin.
\<close>

definition firstFrame :: SlitherGame where
  "firstFrame =
     \<lparr>snakesRef = playerSnake # map aiSnake [0..<AI_SNAKE_COUNT],
      foodRef = centreFood # replicate 199 cornerFood,
      slither_score = 0, slither_running = True, slither_over = False,
      mousePos = \<lparr>pos_x = SLITHER_CANVAS_WIDTH / 2, pos_y = SLITHER_CANVAS_HEIGHT / 2\<rparr>,
      camera = \<lparr>pos_x = 0, pos_y = 0\<rparr>, draws = 0\<rparr>"

text \<open>
  Two actors in a world without food: one at the left border heading left, one in the
  open heading right.
\<close>

definition leftwardSnake :: Snake where
  "leftwardSnake =
     \<lparr>snake_id = AiId 0,
      segments = [\<lparr>pos_x = 9, pos_y = 200\<rparr>, \<lparr>pos_x = 11, pos_y = 200\<rparr>,
                  \<lparr>pos_x = 13, pos_y = 200\<rparr>],
      snake_color = Hsl 0 70 50, isPlayer = False, snake_direction = pi, speed = 2,
      isDead = False\<rparr>"

definition rightwardSnake :: Snake where
  "rightwardSnake =
     \<lparr>snake_id = AiId 1,
      segments = [\<lparr>pos_x = 1000, pos_y = 700\<rparr>, \<lparr>pos_x = 998, pos_y = 700\<rparr>,
                  \<lparr>pos_x = 996, pos_y = 700\<rparr>],
      snake_color = Hsl 0 70 50, isPlayer = False, snake_direction = 0, speed = 2,
      isDead = False\<rparr>"

definition noFoodFrame :: SlitherGame where
  "noFoodFrame =
     \<lparr>snakesRef = [leftwardSnake, rightwardSnake], foodRef = [],
      slither_score = 0, slither_running = True, slither_over = False,
      mousePos = \<lparr>pos_x = 400, pos_y = 300\<rparr>,
      camera = \<lparr>pos_x = 0, pos_y = 0\<rparr>, draws = 0\<rparr>"

text \<open>
  The actors at the end of the update phase of a frame in which the actor \<^verbatim>\<open>ai_0\<close>
  was marked dead.
\<close>

definition deadAIFrame :: SlitherGame where
  "deadAIFrame =
     firstFrame\<lparr>snakesRef :=
       playerSnake # (aiSnake 0)\<lparr>isDead := True\<rparr> # map aiSnake [1..<AI_SNAKE_COUNT]\<rparr>"

text \<open>
  A frame with a collision: the player as at the start of a game and one other actor
  just beside the player's fourth segment, heading towards it, in a world without food.
\<close>

definition chaserSnake :: Snake where
  "chaserSnake =
     \<lparr>snake_id = AiId 0,
      segments = [\<lparr>pos_x = 984, pos_y = 741\<rparr>, \<lparr>pos_x = 984, pos_y = 733\<rparr>,
                  \<lparr>pos_x = 984, pos_y = 725\<rparr>],
      snake_color = Hsl 0 70 50, isPlayer = False, snake_direction = pi / 2, speed = 2,
      isDead = False\<rparr>"

definition collisionFrame :: SlitherGame where
  "collisionFrame =
     \<lparr>snakesRef = [playerSnake, chaserSnake], foodRef = [],
      slither_score = 0, slither_running = True, slither_over = False,
      mousePos = \<lparr>pos_x = 400, pos_y = 300\<rparr>,
      camera = \<lparr>pos_x = 0, pos_y = 0\<rparr>, draws = 0\<rparr>"

text \<open>The two actors of that frame after their updates.\<close>

definition movedPlayer :: Snake where
  "movedPlayer =
     playerSnake\<lparr>snake_direction := arctan (3 / 4) - pi,
       segments := [\<lparr>pos_x = 4992 / 5, pos_y = 3744 / 5\<rparr>, \<lparr>pos_x = 1000, pos_y = 750\<rparr>,
                    \<lparr>pos_x = 992, pos_y = 750\<rparr>, \<lparr>pos_x = 984, pos_y = 750\<rparr>,
                    \<lparr>pos_x = 976, pos_y = 750\<rparr>]\<rparr>"

definition deadChaser :: Snake where
  "deadChaser =
     chaserSnake\<lparr>segments := [\<lparr>pos_x = 984, pos_y = 743\<rparr>, \<lparr>pos_x = 984, pos_y = 741\<rparr>,
                                \<lparr>pos_x = 984, pos_y = 733\<rparr>],
                  isDead := True\<rparr>"

section \<open>Properties of the double-precision arithmetic\<close>

subsection \<open>Rounding to the nearest whole number\<close>

lemma roundTiesToEven_bounds: "\<lfloor>y\<rfloor> \<le> roundTiesToEven y \<and> roundTiesToEven y \<le> \<lfloor>y\<rfloor> + 1"
  by (simp add: roundTiesToEven_def Let_def)

lemma roundTiesToEven_of_int: "roundTiesToEven (of_int k) = k"
  by (simp add: roundTiesToEven_def)

lemma roundTiesToEven_nonneg: "0 \<le> y \<Longrightarrow> 0 \<le> roundTiesToEven y"
  using roundTiesToEven_bounds [of y] by (simp add: order_trans [of 0 "\<lfloor>y\<rfloor>"])

lemma roundTiesToEven_le:
  assumes "y \<le> of_int K"
  shows "roundTiesToEven y \<le> K"
proof (cases "y = of_int K")
  case True
  then show ?thesis by (simp add: roundTiesToEven_of_int)
next
  case False
  with assms have "y < of_int K" by simp
  then have "\<lfloor>y\<rfloor> < K" by (simp add: floor_less_iff)
  with roundTiesToEven_bounds [of y] show ?thesis by linarith
qed

lemma roundTiesToEven_below_half:
  assumes "y < of_int K - 1 / 2"
  shows "roundTiesToEven y \<le> K - 1"
proof -
  from assms have "y < of_int K" by simp
  then have n: "\<lfloor>y\<rfloor> \<le> K - 1" by (simp add: floor_less_iff)
  show ?thesis
  proof (cases "\<lfloor>y\<rfloor> = K - 1")
    case True
    with assms have "y - of_int \<lfloor>y\<rfloor> < 1 / 2" by simp
    then have "roundTiesToEven y = \<lfloor>y\<rfloor>"
      by (simp add: roundTiesToEven_def Let_def)
    with True show ?thesis by simp
  next
    case False
    with n have "\<lfloor>y\<rfloor> + 1 \<le> K - 1" by linarith
    with roundTiesToEven_bounds [of y] show ?thesis by linarith
  qed
qed

lemma roundTiesToEven_up:
  assumes "of_int n + 1 / 2 < y" and "y \<le> of_int n + 1"
  shows "roundTiesToEven y = n + 1"
proof (cases "y = of_int n + 1")
  case True
  then have "y = of_int (n + 1)" by simp
  then show ?thesis by (simp only: roundTiesToEven_of_int)
next
  case False
  with assms have "of_int n \<le> y" "y < of_int n + 1" by simp_all
  then have "\<lfloor>y\<rfloor> = n" by (intro floor_unique)
  with assms(1) show ?thesis
    by (simp add: roundTiesToEven_def)
qed

subsection \<open>Bounds and exact cases of rounding to a double\<close>

lemma roundDouble_nonneg:
  assumes "0 \<le> x"
  shows "0 \<le> roundDouble x"
proof (cases "x = 0")
  case True
  then show ?thesis by (simp add: roundDouble_def)
next
  case False
  define e where "e = max (\<lfloor>log 2 \<bar>x\<bar>\<rfloor> - 52) (- 1074)"
  from assms have "0 \<le> x / 2 powr of_int e"
    by simp
  then have "0 \<le> roundTiesToEven (x / 2 powr of_int e)"
    by (rule roundTiesToEven_nonneg)
  then have "0 \<le> real_of_int (roundTiesToEven (x / 2 powr of_int e)) * 2 powr of_int e"
    by simp
  with False show ?thesis
    by (simp add: roundDouble_def e_def Let_def)
qed

lemma roundDouble_binade:
  fixes k :: int
  assumes "- 1022 \<le> k" and "2 powr of_int k \<le> x" and "x < 2 powr of_int (k + 1)"
  shows "roundDouble x =
         of_int (roundTiesToEven (x / 2 powr of_int (k - 52))) * 2 powr of_int (k - 52)"
proof -
  have pos: "0 < x"
    using assms(2) by (rule less_le_trans [rotated]) simp
  from assms(2,3) have "2 powr of_int k \<le> x \<and> x < 2 powr (of_int k + 1)"
    by simp
  with pos have "\<lfloor>log 2 x\<rfloor> = k"
    by (simp add: floor_log_eq_powr_iff)
  with pos assms(1) have "max (\<lfloor>log 2 \<bar>x\<bar>\<rfloor> - 52) (- 1074) = k - 52"
    by simp
  with pos show ?thesis
    by (simp add: roundDouble_def Let_def)
qed

lemma roundDouble_le_power:
  fixes k :: int
  assumes "0 \<le> x" and "x < 2 powr of_int (k + 1)" and "- 1023 \<le> k"
  shows "roundDouble x \<le> 2 powr of_int (k + 1)"
proof (cases "x = 0")
  case True
  then show ?thesis by (simp add: roundDouble_def)
next
  case False
  with assms have pos: "0 < x" by simp
  define j where "j = \<lfloor>log 2 x\<rfloor>"
  from pos have j: "2 powr of_int j \<le> x" "x < 2 powr (of_int j + 1)"
    using floor_log_eq_powr_iff [of x 2 j] by (simp_all add: j_def)
  from j(1) assms(2) have "2 powr of_int j < (2::real) powr of_int (k + 1)"
    by (rule le_less_trans)
  then have jk: "j \<le> k"
    by simp
  define e where "e = max (j - 52) (- 1074)"
  define y where "y = x / 2 powr of_int e"
  have r: "roundDouble x = of_int (roundTiesToEven y) * 2 powr of_int e"
    using pos by (simp add: roundDouble_def Let_def e_def y_def j_def)
  show ?thesis
  proof (cases "- 1074 \<le> j - 52")
    case True
    then have e: "e = j - 52" by (simp add: e_def)
    have "y < 2 powr (of_int j + 1) / 2 powr of_int e"
      unfolding y_def using j(2) by (simp add: divide_strict_right_mono)
    also have "\<dots> = 2 powr 53"
      by (simp add: e powr_diff [symmetric])
    finally have "y \<le> of_int (2 ^ 53)"
      by simp
    then have "roundTiesToEven y \<le> 2 ^ 53"
      by (rule roundTiesToEven_le)
    then have "real_of_int (roundTiesToEven y) * 2 powr of_int e \<le> real_of_int (2 ^ 53) * 2 powr of_int e"
      by (intro mult_right_mono) simp_all
    also have "\<dots> = 2 powr 53 * 2 powr of_int e"
      by simp
    also have "\<dots> = 2 powr (53 + of_int e)"
      by (simp only: powr_add)
    also have "\<dots> = 2 powr (of_int j + 1)"
      by (rule arg_cong [where f = "\<lambda>t. 2 powr t"]) (simp add: e)
    also have "\<dots> \<le> 2 powr of_int (k + 1)"
      using jk by simp
    finally show ?thesis
      by (simp only: r)
  next
    case False
    then have e: "e = - 1074" and small: "j + 1 \<le> - 1022" by (simp_all add: e_def)
    have "y < 2 powr (of_int j + 1) / 2 powr of_int e"
      unfolding y_def using j(2) by (simp add: divide_strict_right_mono)
    also have "\<dots> = 2 powr (of_int j + 1 + 1074)"
      by (simp add: e powr_diff [symmetric])
    also have "\<dots> \<le> 2 powr 52"
      using small by (intro powr_mono) simp_all
    finally have "y \<le> of_int (2 ^ 52)"
      by simp
    then have "roundTiesToEven y \<le> 2 ^ 52"
      by (rule roundTiesToEven_le)
    then have "real_of_int (roundTiesToEven y) * 2 powr of_int e \<le> real_of_int (2 ^ 52) * 2 powr of_int e"
      by (intro mult_right_mono) simp_all
    also have "\<dots> = 2 powr 52 * 2 powr of_int e"
      by simp
    also have "\<dots> = 2 powr (52 + of_int e)"
      by (simp only: powr_add)
    also have "\<dots> = 2 powr of_int (- 1022)"
      by (rule arg_cong [where f = "\<lambda>t. 2 powr t"]) (simp add: e)
    also have "\<dots> \<le> 2 powr of_int (k + 1)"
      using assms(3) by simp
    finally show ?thesis
      by (simp only: r)
  qed
qed

lemma roundDouble_below_16:
  assumes "0 \<le> x" and "x < 16"
  shows "roundDouble x \<le> 16"
proof -
  have "(2::real) powr of_int (3 + 1) = 16"
    by simp
  with roundDouble_le_power [of x 3] assms show ?thesis
    by simp
qed

lemma roundDouble_16_32:
  assumes "16 \<le> x" and "x < 32"
  shows "roundDouble x = of_int (roundTiesToEven (x * 2 ^ 48)) / 2 ^ 48"
proof -
  have "(2::real) powr of_int 4 = 16" "(2::real) powr of_int (4 + 1) = 32"
    by simp_all
  with roundDouble_binade [of 4 x] assms
  have b: "roundDouble x = of_int (roundTiesToEven (x / 2 powr - 48)) * 2 powr - 48"
    by simp
  have q: "(2::real) powr - 48 = 1 / 2 ^ 48"
    by (simp add: powr_neg_numeral)
  from b show ?thesis
    unfolding q by simp
qed

lemma roundDouble_8_16:
  assumes "8 \<le> x" and "x < 16"
  shows "roundDouble x = of_int (roundTiesToEven (x * 2 ^ 49)) / 2 ^ 49"
proof -
  have "(2::real) powr of_int 3 = 8" "(2::real) powr of_int (3 + 1) = 16"
    by simp_all
  with roundDouble_binade [of 3 x] assms
  have b: "roundDouble x = of_int (roundTiesToEven (x / 2 powr - 49)) * 2 powr - 49"
    by simp
  have q: "(2::real) powr - 49 = 1 / 2 ^ 49"
    by (simp add: powr_neg_numeral)
  from b show ?thesis
    unfolding q by simp
qed

lemma isDouble_below_one:
  assumes "isDouble r" and "r < 1"
  shows "r \<le> 1 - 1 / 2 ^ 53"
proof -
  from assms(1) obtain m e :: int where m: "\<bar>m\<bar> < 2 ^ 53" and e: "- 1074 \<le> e"
    and r: "r = of_int m * 2 powr of_int e"
    by (auto simp: isDouble_def)
  show ?thesis
  proof (cases "- 53 \<le> e")
    case True
    define j where "j = m * 2 ^ nat (e + 53)"
    from True have "real_of_int e + 53 = real (nat (e + 53))"
      by simp
    then have "2 powr (real_of_int e + 53) = (2::real) ^ nat (e + 53)"
      by (simp only: powr_realpow zero_less_numeral)
    then have "r * 2 powr 53 = of_int j"
      unfolding r j_def by (simp add: powr_add mult.assoc)
    moreover from assms(2) have "r * 2 powr 53 < 2 powr 53"
      by simp
    ultimately have "real_of_int j < of_int (2 ^ 53)"
      by simp
    then have "j < 2 ^ 53"
      by (simp only: of_int_less_iff)
    then have "j \<le> 2 ^ 53 - 1"
      by simp
    then have "real_of_int j \<le> of_int (2 ^ 53 - 1)"
      by (simp only: of_int_le_iff)
    with \<open>r * 2 powr 53 = of_int j\<close> have "r * 2 ^ 53 \<le> 2 ^ 53 - 1"
      by simp
    then show ?thesis
      by (simp add: field_simps)
  next
    case False
    then have "real_of_int e \<le> - 54"
      by simp
    then have p: "2 powr of_int e \<le> (2::real) powr (- 54)"
      by (intro powr_mono) simp_all
    from m have "real_of_int m \<le> 2 ^ 53"
      by (metis abs_le_iff less_imp_le of_int_le_iff of_int_numeral of_int_power)
    then have "r \<le> 2 ^ 53 * 2 powr of_int e"
      unfolding r by (intro mult_right_mono) simp_all
    also have "\<dots> \<le> 2 ^ 53 * 2 powr (- 54)"
      using p by (intro mult_left_mono) simp_all
    also have "\<dots> = 1 / 2"
      by (simp add: powr_neg_numeral)
    finally show ?thesis
      by simp
  qed
qed

lemma roundDouble_exact:
  fixes j :: int and n :: nat
  assumes "0 \<le> j" and "j < 2 ^ 53" and "n \<le> 1074"
  shows "roundDouble (of_int j / 2 ^ n) = of_int j / 2 ^ n"
proof (cases "j = 0")
  case True
  then show ?thesis by (simp add: roundDouble_def)
next
  case False
  define x :: real where "x = of_int j / 2 ^ n"
  from False assms(1) have jpos: "0 < j" by simp
  then have pos: "0 < x" by (simp add: x_def)
  define k where "k = \<lfloor>log 2 x\<rfloor>"
  from pos have k: "2 powr of_int k \<le> x"
    using floor_log_eq_powr_iff [of x 2 k] by (simp add: k_def)
  have "x < 2 ^ 53 / 2 ^ n"
    unfolding x_def using assms(2) by (simp add: divide_strict_right_mono)
  also have "\<dots> = 2 powr (53 - of_nat n)"
    by (simp add: powr_diff powr_realpow)
  finally have "x < 2 powr (53 - of_nat n)" .
  with k have "2 powr of_int k < (2::real) powr (53 - of_nat n)"
    by (rule le_less_trans)
  then have "real_of_int k < 53 - of_nat n"
    by simp
  then have kn: "k - 52 \<le> - int n"
    by linarith
  define e where "e = max (k - 52) (- 1074)"
  from kn assms(3) have en: "e \<le> - int n"
    by (simp add: e_def)
  define d where "d = nat (- int n - e)"
  have "x / 2 powr of_int e = of_int j * 2 powr (- of_nat n - of_int e)"
    by (simp add: x_def powr_diff powr_minus powr_realpow field_simps)
  also have "- real n - of_int e = of_nat d"
    using en by (simp add: d_def)
  finally have "x / 2 powr of_int e = of_int (j * 2 ^ d)"
    by (simp add: powr_realpow)
  then have "real_of_int (roundTiesToEven (x / 2 powr of_int e)) = x / 2 powr of_int e"
    by (simp only: roundTiesToEven_of_int)
  then have "roundDouble x = x"
    using pos by (simp add: roundDouble_def Let_def e_def k_def)
  then show ?thesis
    by (simp only: x_def)
qed

section \<open>Properties of the grid game\<close>

subsection \<open>Auxiliary facts\<close>

lemma hitsWall_iff:
  "hitsWall h \<longleftrightarrow> pos_x h < 0 \<or> 30 \<le> pos_x h \<or> pos_y h < 0 \<or> 20 \<le> pos_y h"
  by (auto simp: hitsWall_def CANVAS_WIDTH_def CANVAS_HEIGHT_def GRID_SIZE_def)

lemma moveSnake_running:
  assumes "gameRunning st" and "\<not> gameOver st" and "snake st = h # rest"
  shows "moveSnake r1 r2 st =
     (let head = nextHead (direction st) h in
      if hitsWall head then st\<lparr>gameOver := True, gameRunning := False\<rparr>
      else if hitsSelf (snake st) head then st\<lparr>gameOver := True, gameRunning := False\<rparr>
      else if onFood head (food st)
        then st\<lparr>snake := head # snake st, food := generateFood r1 r2, score := score st + 10\<rparr>
        else st\<lparr>snake := butlast (head # snake st)\<rparr>)"
  using assms by (simp add: moveSnake.simps)

lemma moveSnake_idle: "\<not> gameRunning st \<or> gameOver st \<Longrightarrow> moveSnake r1 r2 st = st"
  by (auto simp: moveSnake.simps)

lemma handleKeyPress_Space: "handleKeyPress Space st = st"
  by (simp add: handleKeyPress.simps startGame.simps)

lemma handleKeyPress_no_reversal: "direction (handleKeyPress k st) \<noteq> opposite (direction st)"
  by (cases k; cases "direction st"; simp add: handleKeyPress.simps startGame.simps)

lemma runningGame_eq:
  "runningGame =
     \<lparr>snake = [\<lparr>pos_x = 10, pos_y = 10\<rparr>], food = \<lparr>pos_x = 15, pos_y = 15\<rparr>,
      direction = RIGHT, gameOver = False, score = 0, gameRunning = True\<rparr>"
  by (simp add: runningGame_def initialGame_def startGame.simps)

subsection \<open>The cells that generateFood returns\<close>

lemma roundDouble_of_nat_small: "roundDouble 30 = 30" "roundDouble 20 = 20"
  using roundDouble_exact [of 30 0] roundDouble_exact [of 20 0] by simp_all

lemma generateFood_eq:
  "generateFood r1 r2 =
     \<lparr>pos_x = \<lfloor>roundDouble (r1 * 29)\<rfloor>, pos_y = \<lfloor>roundDouble (r2 * 19)\<rfloor>\<rparr>"
  by (simp add: generateFood_def CANVAS_WIDTH_def CANVAS_HEIGHT_def GRID_SIZE_def
      roundDouble_of_nat_small)

lemma scaled_draw_floor:
  fixes N :: int
  assumes "isDouble r" and "0 \<le> r" and "r < 1" and "17 \<le> N" and "N \<le> 31"
  shows "0 \<le> \<lfloor>roundDouble (r * of_int N)\<rfloor> \<and> \<lfloor>roundDouble (r * of_int N)\<rfloor> \<le> N - 1"
proof
  from assms(2,4) have "0 \<le> r * of_int N"
    by simp
  then have "0 \<le> roundDouble (r * of_int N)"
    by (rule roundDouble_nonneg)
  then show "0 \<le> \<lfloor>roundDouble (r * of_int N)\<rfloor>"
    by simp
next
  let ?p = "r * of_int N"
  from isDouble_below_one [OF assms(1,3)] have r: "r \<le> 1 - 1 / 2 ^ 53" .
  from assms(2,4) have p0: "0 \<le> ?p"
    by simp
  have Npos: "0 < real_of_int N"
    using assms(4) by simp
  from r Npos have "?p \<le> (1 - 1 / 2 ^ 53) * of_int N"
    by (intro mult_right_mono) simp_all
  then have pN: "?p \<le> of_int N - of_int N / 2 ^ 53"
    by (simp add: algebra_simps)
  show "\<lfloor>roundDouble ?p\<rfloor> \<le> N - 1"
  proof (cases "?p < 16")
    case True
    from roundDouble_below_16 [OF p0 True] have "roundDouble ?p \<le> 16" .
    then have "\<lfloor>roundDouble ?p\<rfloor> \<le> \<lfloor>16::real\<rfloor>"
      by (rule floor_mono)
    then have "\<lfloor>roundDouble ?p\<rfloor> \<le> 16"
      by simp
    with assms(4) show ?thesis
      by linarith
  next
    case False
    then have lo: "16 \<le> ?p"
      by simp
    from assms(3) Npos have "?p \<le> 1 * of_int N"
      by (intro mult_right_mono) simp_all
    with assms(5) have hi: "?p < 32"
      by simp
    have "real_of_int N / 32 > 1 / 2"
      using assms(4) by simp
    moreover from pN have "?p * 2 ^ 48 \<le> (of_int N - of_int N / 2 ^ 53) * 2 ^ 48"
      by (intro mult_right_mono) simp_all
    moreover have "(real_of_int N - of_int N / 2 ^ 53) * 2 ^ 48 = of_int (N * 2 ^ 48) - of_int N / 32"
      by (simp add: algebra_simps)
    ultimately have "?p * 2 ^ 48 < of_int (N * 2 ^ 48) - 1 / 2"
      by linarith
    then have "roundTiesToEven (?p * 2 ^ 48) \<le> N * 2 ^ 48 - 1"
      by (rule roundTiesToEven_below_half)
    then have "real_of_int (roundTiesToEven (?p * 2 ^ 48)) \<le> of_int (N * 2 ^ 48 - 1)"
      by (simp only: of_int_le_iff)
    then have "real_of_int (roundTiesToEven (?p * 2 ^ 48)) / 2 ^ 48 \<le> of_int (N * 2 ^ 48 - 1) / 2 ^ 48"
      by (intro divide_right_mono) simp_all
    also have "\<dots> < of_int N"
      by (simp add: field_simps)
    finally have "roundDouble ?p < of_int N"
      by (simp only: roundDouble_16_32 [OF lo hi])
    then have "\<lfloor>roundDouble ?p\<rfloor> < N"
      by (simp add: floor_less_iff)
    then show ?thesis
      by simp
  qed
qed

lemma isDouble_small_dyadic:
  fixes k :: int
  assumes "0 \<le> k" and "k < 2 ^ 53"
  shows "isDouble (of_int k / 2 ^ 5)"
proof -
  have "(2::real) powr of_int (- 5) = 1 / 2 ^ 5"
    by (simp add: powr_neg_numeral)
  then have "real_of_int k / 2 ^ 5 = of_int k * 2 powr of_int (- 5)"
    by simp
  moreover from assms have "\<bar>k\<bar> < 2 ^ 53"
    by simp
  ultimately show ?thesis
    unfolding isDouble_def by (intro exI [of _ k] exI [of _ "- 5"]) simp
qed

lemma scaled_dyadic_floor:
  fixes a N :: int
  assumes "0 \<le> a" and "a < N" and "17 \<le> N" and "N \<le> 31"
  defines "k \<equiv> (32 * a + (N - 1)) div N"
  shows "isDouble (of_int k / 2 ^ 5) \<and> 0 \<le> real_of_int k / 2 ^ 5 \<and> real_of_int k / 2 ^ 5 < 1 \<and>
         \<lfloor>roundDouble (of_int k / 2 ^ 5 * of_int N)\<rfloor> = a"
proof -
  define M where "M = 32 * a + (N - 1)"
  from assms(3) have Npos: "0 < N"
    by simp
  have k: "k = M div N"
    by (simp add: k_def M_def)
  have "M = N * k + M mod N"
    unfolding k by simp
  moreover from Npos have "0 \<le> M mod N" "M mod N < N"
    by simp_all
  ultimately have kN: "N * k \<le> M" "M < N * k + N"
    by linarith+
  from assms(1) Npos have "0 \<le> M"
    by (simp add: M_def)
  with Npos have k0: "0 \<le> k"
    unfolding k by (simp add: pos_imp_zdiv_nonneg_iff)
  from kN(1) assms(2,4) have "N * k < N * 32"
    by (simp add: M_def)
  with Npos have k32: "k < 32"
    by simp
  from kN assms(4) have fl: "32 * a \<le> N * k" "N * k < 32 * a + 32"
    by (simp_all add: M_def)
  from k0 Npos have nk0: "0 \<le> N * k"
    by simp
  from fl(2) assms(2,4) have "N * k < 2 ^ 53"
    by simp
  with nk0 have exact: "roundDouble (of_int (N * k) / 2 ^ 5) = of_int (N * k) / 2 ^ 5"
    by (intro roundDouble_exact) simp_all
  have "\<lfloor>real_of_int (N * k) / 2 ^ 5\<rfloor> = a"
  proof (rule floor_unique)
    from fl(1) have "real_of_int (32 * a) \<le> of_int (N * k)"
      by (simp only: of_int_le_iff)
    then show "of_int a \<le> real_of_int (N * k) / 2 ^ 5"
      by simp
    from fl(2) have "real_of_int (N * k) < of_int (32 * a + 32)"
      by (simp only: of_int_less_iff)
    then show "real_of_int (N * k) / 2 ^ 5 < of_int a + 1"
      by simp
  qed
  moreover have "real_of_int k / 2 ^ 5 * of_int N = of_int (N * k) / 2 ^ 5"
    by simp
  ultimately have "\<lfloor>roundDouble (of_int k / 2 ^ 5 * of_int N)\<rfloor> = a"
    by (simp only: exact)
  moreover from k0 k32 have "isDouble (of_int k / 2 ^ 5)"
    by (intro isDouble_small_dyadic) simp_all
  ultimately show ?thesis
    using k0 k32 by simp
qed

lemma generateFood_half: "generateFood (1 / 2) (1 / 2) = \<lparr>pos_x = 14, pos_y = 9\<rparr>"
proof -
  have e: "roundDouble (1 / 2 * 29) = 29 / 2" "roundDouble (1 / 2 * 19) = 19 / 2"
    using roundDouble_exact [of 29 1] roundDouble_exact [of 19 1] by simp_all
  have f: "\<lfloor>29 / 2 :: real\<rfloor> = 14" "\<lfloor>19 / 2 :: real\<rfloor> = 9"
    by simp_all
  show ?thesis
    by (simp only: generateFood_eq e f)
qed

lemma generateFood_curl: "generateFood (13 / 32) (9 / 16) = \<lparr>pos_x = 11, pos_y = 10\<rparr>"
proof -
  have e: "roundDouble (13 / 32 * 29) = 377 / 32" "roundDouble (9 / 16 * 19) = 171 / 16"
    using roundDouble_exact [of 377 5] roundDouble_exact [of 171 4] by simp_all
  have f: "\<lfloor>377 / 32 :: real\<rfloor> = 11" "\<lfloor>171 / 16 :: real\<rfloor> = 10"
    by simp_all
  show ?thesis
    by (simp only: generateFood_eq e f)
qed

lemma isDouble_half: "isDouble (1 / 2)"
  using isDouble_small_dyadic [of 16] by simp

text \<open>
  Rounding matters: at the doubles nearest to 16/29 and 12/19 the two products round up
  to the whole numbers 16 and 12, while the exact products floor to 15 and 11.
\<close>

lemma generateFood_rounds_up:
  "generateFood (2484744621997515 / 2 ^ 52) (2844378712023471 / 2 ^ 52) = \<lparr>pos_x = 16, pos_y = 12\<rparr>"
proof -
  let ?p = "2484744621997515 / 2 ^ 52 * 29 :: real"
  let ?q = "2844378712023471 / 2 ^ 52 * 19 :: real"
  have "roundTiesToEven (?p * 2 ^ 49) = 9007199254740991 + 1"
    by (rule roundTiesToEven_up) simp_all
  moreover have "8 \<le> ?p" "?p < 16"
    by simp_all
  ultimately have x: "roundDouble ?p = 16"
    by (simp only: roundDouble_8_16) simp
  have "roundTiesToEven (?q * 2 ^ 49) = 6755399441055743 + 1"
    by (rule roundTiesToEven_up) simp_all
  moreover have "8 \<le> ?q" "?q < 16"
    by simp_all
  ultimately have y: "roundDouble ?q = 12"
    by (simp only: roundDouble_8_16) simp
  show ?thesis
    by (simp only: generateFood_eq x y) simp
qed

lemma isDouble_rounds_up:
  "isDouble (2484744621997515 / 2 ^ 52)" "isDouble (2844378712023471 / 2 ^ 52)"
proof -
  have p: "(2::real) powr of_int (- 52) = 1 / 2 ^ 52"
    by (simp add: powr_neg_numeral)
  have a: "2484744621997515 / 2 ^ 52 = real_of_int 2484744621997515 * 2 powr of_int (- 52)"
    unfolding p by simp
  have b: "2844378712023471 / 2 ^ 52 = real_of_int 2844378712023471 * 2 powr of_int (- 52)"
    unfolding p by simp
  have c: "\<bar>2484744621997515 :: int\<bar> < 2 ^ 53" "\<bar>2844378712023471 :: int\<bar> < 2 ^ 53"
    "- 1074 \<le> (- 52 :: int)" "(- 52 :: int) \<le> 971"
    by simp_all
  from a c show "isDouble (2484744621997515 / 2 ^ 52)"
    unfolding isDouble_def by blast
  from b c show "isDouble (2844378712023471 / 2 ^ 52)"
    unfolding isDouble_def by blast
qed

lemma exact_products_below:
  "\<lfloor>2484744621997515 / 2 ^ 52 * 29 :: real\<rfloor> = 15"
  "\<lfloor>2844378712023471 / 2 ^ 52 * 19 :: real\<rfloor> = 11"
  by (rule floor_unique; simp)+

subsection \<open>Snake length per tick\<close>

lemma curledGame_reached:
  "isDouble (13 / 32) \<and> isDouble (9 / 16) \<and>
   handleKeyPress ArrowRight (moveSnake (13 / 32) (9 / 16) beforeCurlGame) = curledGame"
proof -
  have "isDouble (13 / 32)" "isDouble (9 / 16)"
    using isDouble_small_dyadic [of 13] isDouble_small_dyadic [of 18] by simp_all
  moreover have "handleKeyPress ArrowRight (moveSnake (13 / 32) (9 / 16) beforeCurlGame) = curledGame"
    by (simp add: beforeCurlGame_def curledGame_def moveSnake.simps handleKeyPress.simps
        hitsWall_iff hitsSelf_def onFood_def generateFood_curl Let_def)
  ultimately show ?thesis
    by simp
qed

text \<open>
  C3, as stated, fails: a tick whose new head cell equals the food position does not grow
  the snake when that cell is also a segment of the snake. In \<open>curledGame\<close> (reached
  from \<open>beforeCurlGame\<close> by one tick and one key) the food lies under the tail; the
  head turns onto it, the self-collision test (made before the food test) ends the game,
  and the length stays 4.
\<close>

theorem moveSnake_food_under_tail_counterexample:
  "gameRunning curledGame \<and> \<not> gameOver curledGame \<and>
   onFood (nextHead (direction curledGame) (hd (snake curledGame))) (food curledGame) \<and>
   length (snake (moveSnake 0 0 curledGame)) = length (snake curledGame) \<and>
   length (snake (moveSnake 0 0 curledGame)) \<noteq> length (snake curledGame) + 1"
  by (simp add: curledGame_def moveSnake.simps hitsWall_iff hitsSelf_def onFood_def Let_def)

text \<open>
  C3, amended: for every tick of \<^verbatim>\<open>moveSnake\<close> executed while running and not
  game-over, the length of the segment list is non-decreasing; it increases by exactly 1
  on a tick where the new head cell is inside the grid, is no segment of the snake and
  equals the food position, and stays exactly constant on every other tick.
\<close>

theorem moveSnake_length:
  assumes "gameRunning st" and "\<not> gameOver st"
  shows "length (snake st) \<le> length (snake (moveSnake r1 r2 st)) \<and>
         length (snake (moveSnake r1 r2 st)) = length (snake st) + (if eats st then 1 else 0)"
proof (cases "snake st")
  case Nil
  with assms show ?thesis
    by (simp add: moveSnake.simps eats_def)
next
  case (Cons h rest)
  from moveSnake_running [OF assms Cons, of r1 r2] Cons show ?thesis
    by (simp add: eats_def Let_def)
qed

theorem moveSnake_length_witness:
  "gameRunning beforeFoodGame \<and> \<not> gameOver beforeFoodGame \<and> eats beforeFoodGame \<and>
   length (snake (moveSnake 0 0 beforeFoodGame)) = 2 \<and>
   gameRunning twoSegmentGame \<and> \<not> gameOver twoSegmentGame \<and> \<not> eats twoSegmentGame \<and>
   length (snake (moveSnake 0 0 twoSegmentGame)) = 2"
proof -
  have a: "gameRunning beforeFoodGame" "\<not> gameOver beforeFoodGame" "eats beforeFoodGame"
    "length (snake beforeFoodGame) = 1"
    by (simp_all add: beforeFoodGame_def eats_def hitsWall_iff hitsSelf_def onFood_def)
  have b: "gameRunning twoSegmentGame" "\<not> gameOver twoSegmentGame" "\<not> eats twoSegmentGame"
    "length (snake twoSegmentGame) = 2"
    by (simp_all add: twoSegmentGame_def eats_def hitsWall_iff hitsSelf_def onFood_def)
  from moveSnake_length [OF a(1,2), of 0 0] moveSnake_length [OF b(1,2), of 0 0] a b
  show ?thesis by simp
qed

subsection \<open>Reversal of direction between two ticks\<close>

text \<open>
  C4 (the direction used at a tick is never the reverse of the one used at the tick
  before, whatever keys are handled in between): the handler compares each key with the
  direction stored last, not with the direction of the last tick, so two keys between
  two ticks reverse the snake. In \<open>twoSegmentGame\<close> the first tick moves RIGHT; the
  keys ArrowUp and ArrowLeft are both accepted; the second tick moves LEFT, onto the
  snake's second segment, and the game is over.
\<close>

theorem handleKeys_two_keys_reverse:
  "direction twoSegmentGame = RIGHT \<and>
   gameRunning (moveSnake 0 0 twoSegmentGame) \<and>
   direction (moveSnake 0 0 twoSegmentGame) = RIGHT \<and>
   direction (handleKeys [ArrowUp, ArrowLeft] (moveSnake 0 0 twoSegmentGame)) = LEFT \<and>
   opposite RIGHT = LEFT \<and>
   gameOver (moveSnake 0 0 (handleKeys [ArrowUp, ArrowLeft] (moveSnake 0 0 twoSegmentGame)))"
  by (simp add: twoSegmentGame_def moveSnake.simps handleKeyPress.simps hitsWall_iff
      hitsSelf_def onFood_def Let_def)

subsection \<open>Wall collision\<close>

text \<open>
  C5: on a tick (running, not game-over) whose new head cell has x < 0, x \<ge> 30, y < 0 or
  y \<ge> 20, the game goes to game-over (gameOver true, gameRunning false) and the segment
  list, the food position and the score are left as they were.
\<close>

theorem moveSnake_wall:
  assumes "gameRunning st" and "\<not> gameOver st" and "snake st = h # rest"
    and "pos_x (nextHead (direction st) h) < 0 \<or> 30 \<le> pos_x (nextHead (direction st) h) \<or>
         pos_y (nextHead (direction st) h) < 0 \<or> 20 \<le> pos_y (nextHead (direction st) h)"
  shows "gameOver (moveSnake r1 r2 st) \<and> \<not> gameRunning (moveSnake r1 r2 st) \<and>
         snake (moveSnake r1 r2 st) = snake st \<and> food (moveSnake r1 r2 st) = food st \<and>
         score (moveSnake r1 r2 st) = score st \<and>
         moveSnake r1 r2 st = st\<lparr>gameOver := True, gameRunning := False\<rparr>"
proof -
  from assms(4) have "hitsWall (nextHead (direction st) h)"
    by (simp only: hitsWall_iff)
  with moveSnake_running [OF assms(1-3), of r1 r2]
  have "moveSnake r1 r2 st = st\<lparr>gameOver := True, gameRunning := False\<rparr>"
    by (simp add: Let_def)
  then show ?thesis by simp
qed

theorem moveSnake_wall_witness:
  "gameRunning atWallGame \<and> \<not> gameOver atWallGame \<and>
   snake atWallGame = [\<lparr>pos_x = 29, pos_y = 10\<rparr>] \<and>
   pos_x (nextHead (direction atWallGame) \<lparr>pos_x = 29, pos_y = 10\<rparr>) = 30 \<and>
   moveSnake 0 0 atWallGame = crashedGame"
proof -
  have a: "gameRunning atWallGame" "\<not> gameOver atWallGame"
    "snake atWallGame = \<lparr>pos_x = 29, pos_y = 10\<rparr> # []"
    by (simp_all add: atWallGame_def)
  have d: "direction atWallGame = RIGHT"
    by (simp add: atWallGame_def)
  have w: "pos_x (nextHead (direction atWallGame) \<lparr>pos_x = 29, pos_y = 10\<rparr>) < 0 \<or>
        30 \<le> pos_x (nextHead (direction atWallGame) \<lparr>pos_x = 29, pos_y = 10\<rparr>) \<or>
        pos_y (nextHead (direction atWallGame) \<lparr>pos_x = 29, pos_y = 10\<rparr>) < 0 \<or>
        20 \<le> pos_y (nextHead (direction atWallGame) \<lparr>pos_x = 29, pos_y = 10\<rparr>)"
    by (simp add: d)
  from moveSnake_wall [OF a w, of 0 0] a d show ?thesis
    by (simp add: crashedGame_def)
qed

subsection \<open>The space key\<close>

text \<open>
  C7 (the space key pauses a running game and resumes a paused one): the space branch of
  the handler calls \<^verbatim>\<open>startGame\<close>, which only ever sets gameRunning to true and
  only from the idle state; no code path pauses. Pressing space in a running game leaves
  it running, with every field as it was.
\<close>

theorem handleKeyPress_Space_running:
  "gameRunning runningGame \<and> \<not> gameOver runningGame \<and>
   gameRunning (handleKeyPress Space runningGame) \<and>
   handleKeyPress Space runningGame = runningGame \<and>
   handleKeyPress Space (handleKeyPress Space runningGame) = runningGame"
  by (simp add: runningGame_eq handleKeyPress.simps startGame.simps)

subsection \<open>Starting the game\<close>

text \<open>
  C8, as stated, fails: in a game-over state \<^verbatim>\<open>startGame\<close> does nothing, by the
  Start affordance or by the space key. \<open>crashedGame\<close> is the state after hitting the
  wall.
\<close>

theorem startGame_game_over_counterexample:
  "gameOver crashedGame \<and> \<not> gameRunning (startGame crashedGame) \<and>
   \<not> gameRunning (handleKeyPress Space crashedGame)"
  by (simp add: crashedGame_def atWallGame_def handleKeyPress.simps startGame.simps)

text \<open>
  C8, amended: start is accepted from the idle state only. For every state where neither
  gameRunning nor gameOver is set, \<^verbatim>\<open>startGame\<close> transitions the game to running;
  for every state where gameOver is true, invoking \<^verbatim>\<open>startGame\<close> (via the Start
  affordance or the space key) leaves the state unchanged, and the game becomes startable
  again through \<^verbatim>\<open>resetGame\<close>, after which \<^verbatim>\<open>startGame\<close> sets it running.
\<close>

theorem startGame_from_idle_only:
  "(\<not> gameRunning st \<and> \<not> gameOver st \<longrightarrow> startGame st = st\<lparr>gameRunning := True\<rparr>) \<and>
   (gameOver st \<longrightarrow> startGame st = st \<and> handleKeyPress Space st = st) \<and>
   gameRunning (startGame (resetGame r1 r2 st)) \<and> \<not> gameOver (startGame (resetGame r1 r2 st))"
  by (simp add: startGame.simps handleKeyPress.simps resetGame_def)

theorem startGame_from_idle_only_witness:
  "\<not> gameRunning initialGame \<and> \<not> gameOver initialGame \<and> startGame initialGame = runningGame \<and>
   gameRunning runningGame \<and>
   gameOver crashedGame \<and> startGame crashedGame = crashedGame \<and>
   handleKeyPress Space crashedGame = crashedGame \<and>
   gameRunning (startGame (resetGame 0 0 crashedGame))"
proof -
  have i: "\<not> gameRunning initialGame \<and> \<not> gameOver initialGame"
    by (simp add: initialGame_def)
  have c: "gameOver crashedGame"
    by (simp add: crashedGame_def)
  from startGame_from_idle_only [of initialGame 0 0] startGame_from_idle_only [of crashedGame 0 0] i c
  show ?thesis
    by (simp add: runningGame_def)
qed

subsection \<open>Biting the tail\<close>

text \<open>
  C9: the self-collision test runs against the body before the tail is removed. On every
  tick (running, not game-over) where the snake has at least two segments and the new
  head cell is the cell of the last segment, the game goes to game-over and the snake is
  left as it was, whether or not the tick would have eaten.
\<close>

theorem moveSnake_tail_bite:
  assumes "gameRunning st" and "\<not> gameOver st" and "2 \<le> length (snake st)"
    and "nextHead (direction st) (hd (snake st)) = last (snake st)"
  shows "gameOver (moveSnake r1 r2 st) \<and> \<not> gameRunning (moveSnake r1 r2 st) \<and>
         snake (moveSnake r1 r2 st) = snake st"
proof -
  from assms(3) obtain h rest where s: "snake st = h # rest"
    by (cases "snake st") auto
  let ?head = "nextHead (direction st) h"
  from assms(4) s have "?head \<in> set (snake st)"
    by (metis last_in_set list.sel(1) list.simps(3))
  then have "hitsSelf (snake st) ?head"
    by (auto simp: hitsSelf_def list_ex_iff)
  with moveSnake_running [OF assms(1,2) s, of r1 r2]
  have "moveSnake r1 r2 st = st\<lparr>gameOver := True, gameRunning := False\<rparr>"
    by (simp add: Let_def)
  then show ?thesis by simp
qed

theorem moveSnake_tail_bite_witness:
  "gameRunning curledGameFoodAway \<and> \<not> gameOver curledGameFoodAway \<and>
   length (snake curledGameFoodAway) = 4 \<and>
   nextHead (direction curledGameFoodAway) (hd (snake curledGameFoodAway)) =
     last (snake curledGameFoodAway) \<and>
   \<not> eats curledGameFoodAway \<and>
   gameOver (moveSnake 0 0 curledGameFoodAway) \<and>
   snake (moveSnake 0 0 curledGameFoodAway) = snake curledGameFoodAway"
proof -
  have a: "gameRunning curledGameFoodAway" "\<not> gameOver curledGameFoodAway"
    "2 \<le> length (snake curledGameFoodAway)"
    "nextHead (direction curledGameFoodAway) (hd (snake curledGameFoodAway)) =
       last (snake curledGameFoodAway)"
    by (simp_all add: curledGameFoodAway_def curledGame_def)
  have b: "length (snake curledGameFoodAway) = 4" "\<not> eats curledGameFoodAway"
    by (simp_all add: curledGameFoodAway_def curledGame_def eats_def onFood_def)
  from moveSnake_tail_bite [OF a, of 0 0] a b show ?thesis
    by simp
qed

subsection \<open>Where food is placed\<close>

lemma moveSnake_eats:
  assumes "gameRunning st" and "\<not> gameOver st" and "eats st"
  shows "food (moveSnake r1 r2 st) = generateFood r1 r2 \<and>
         set (snake st) \<subseteq> set (snake (moveSnake r1 r2 st))"
proof -
  from assms(3) obtain h rest where s: "snake st = h # rest"
    by (cases "snake st") (auto simp: eats_def)
  from assms(3) s moveSnake_running [OF assms(1,2) s, of r1 r2] show ?thesis
    by (auto simp: eats_def Let_def)
qed

text \<open>
  C10: with both random draws doubles in the half-open interval from 0 to 1, the cell
  returned by \<^verbatim>\<open>generateFood\<close> has 0 \<le> x \<le> 28 and 0 \<le> y \<le> 18, so never column 29
  or row 19. The cell is not checked against the snake: on a tick that eats, every cell
  of the snake within that range is the new food position for some pair of such draws,
  while the snake still occupies it.
\<close>

theorem generateFood_range:
  "(isDouble r1 \<and> 0 \<le> r1 \<and> r1 < 1 \<and> isDouble r2 \<and> 0 \<le> r2 \<and> r2 < 1 \<longrightarrow>
      0 \<le> pos_x (generateFood r1 r2) \<and> pos_x (generateFood r1 r2) \<le> 28 \<and>
      0 \<le> pos_y (generateFood r1 r2) \<and> pos_y (generateFood r1 r2) \<le> 18) \<and>
   (gameRunning st \<and> \<not> gameOver st \<and> eats st \<and> c \<in> set (snake st) \<and>
    0 \<le> pos_x c \<and> pos_x c \<le> 28 \<and> 0 \<le> pos_y c \<and> pos_y c \<le> 18 \<longrightarrow>
      (\<exists>q1 q2. isDouble q1 \<and> 0 \<le> q1 \<and> q1 < 1 \<and> isDouble q2 \<and> 0 \<le> q2 \<and> q2 < 1 \<and>
         food (moveSnake q1 q2 st) = c \<and> c \<in> set (snake (moveSnake q1 q2 st))))"
proof (intro conjI impI)
  assume r: "isDouble r1 \<and> 0 \<le> r1 \<and> r1 < 1 \<and> isDouble r2 \<and> 0 \<le> r2 \<and> r2 < 1"
  from r scaled_draw_floor [of r1 29] scaled_draw_floor [of r2 19]
  show "0 \<le> pos_x (generateFood r1 r2)" "pos_x (generateFood r1 r2) \<le> 28"
    "0 \<le> pos_y (generateFood r1 r2)" "pos_y (generateFood r1 r2) \<le> 18"
    by (simp_all add: generateFood_eq)
next
  assume a: "gameRunning st \<and> \<not> gameOver st \<and> eats st \<and> c \<in> set (snake st) \<and>
    0 \<le> pos_x c \<and> pos_x c \<le> 28 \<and> 0 \<le> pos_y c \<and> pos_y c \<le> 18"
  define q1 :: real where "q1 = of_int ((32 * pos_x c + (29 - 1)) div 29) / 2 ^ 5"
  define q2 :: real where "q2 = of_int ((32 * pos_y c + (19 - 1)) div 19) / 2 ^ 5"
  from a scaled_dyadic_floor [of "pos_x c" 29]
  have x: "isDouble q1" "0 \<le> q1" "q1 < 1" "\<lfloor>roundDouble (q1 * 29)\<rfloor> = pos_x c"
    by (simp_all add: q1_def)
  from a scaled_dyadic_floor [of "pos_y c" 19]
  have y: "isDouble q2" "0 \<le> q2" "q2 < 1" "\<lfloor>roundDouble (q2 * 19)\<rfloor> = pos_y c"
    by (simp_all add: q2_def)
  from x(4) y(4) have g: "generateFood q1 q2 = c"
    by (simp add: generateFood_eq)
  from a moveSnake_eats [of st q1 q2]
  have "food (moveSnake q1 q2 st) = generateFood q1 q2" "c \<in> set (snake (moveSnake q1 q2 st))"
    by auto
  with g x(1-3) y(1-3)
  show "\<exists>q1 q2. isDouble q1 \<and> 0 \<le> q1 \<and> q1 < 1 \<and> isDouble q2 \<and> 0 \<le> q2 \<and> q2 < 1 \<and>
         food (moveSnake q1 q2 st) = c \<and> c \<in> set (snake (moveSnake q1 q2 st))"
    by blast
qed

theorem generateFood_range_witness:
  "isDouble (1 / 2) \<and> (0::real) \<le> 1 / 2 \<and> (1 / 2 :: real) < 1 \<and>
   generateFood (1 / 2) (1 / 2) = \<lparr>pos_x = 14, pos_y = 9\<rparr> \<and>
   pos_x (generateFood (1 / 2) (1 / 2)) \<le> 28 \<and> pos_y (generateFood (1 / 2) (1 / 2)) \<le> 18 \<and>
   isDouble (2484744621997515 / 2 ^ 52) \<and> isDouble (2844378712023471 / 2 ^ 52) \<and>
   generateFood (2484744621997515 / 2 ^ 52) (2844378712023471 / 2 ^ 52) = \<lparr>pos_x = 16, pos_y = 12\<rparr> \<and>
   pos_x (generateFood (2484744621997515 / 2 ^ 52) (2844378712023471 / 2 ^ 52)) \<le> 28 \<and>
   pos_y (generateFood (2484744621997515 / 2 ^ 52) (2844378712023471 / 2 ^ 52)) \<le> 18 \<and>
   gameRunning beforeFoodGame \<and> \<not> gameOver beforeFoodGame \<and> eats beforeFoodGame \<and>
   \<lparr>pos_x = 10, pos_y = 10\<rparr> \<in> set (snake beforeFoodGame) \<and>
   (\<exists>q1 q2. isDouble q1 \<and> 0 \<le> q1 \<and> q1 < 1 \<and> isDouble q2 \<and> 0 \<le> q2 \<and> q2 < 1 \<and>
      food (moveSnake q1 q2 beforeFoodGame) = \<lparr>pos_x = 10, pos_y = 10\<rparr> \<and>
      \<lparr>pos_x = 10, pos_y = 10\<rparr> \<in> set (snake (moveSnake q1 q2 beforeFoodGame)))"
proof -
  have r: "isDouble (1 / 2) \<and> (0::real) \<le> 1 / 2 \<and> (1 / 2 :: real) < 1"
    by (simp add: isDouble_half)
  have d: "(0::real) \<le> 2484744621997515 / 2 ^ 52 \<and> (2484744621997515 / 2 ^ 52 :: real) < 1 \<and>
      (0::real) \<le> 2844378712023471 / 2 ^ 52 \<and> (2844378712023471 / 2 ^ 52 :: real) < 1"
    by simp
  have a: "gameRunning beforeFoodGame \<and> \<not> gameOver beforeFoodGame \<and> eats beforeFoodGame \<and>
    \<lparr>pos_x = 10, pos_y = 10\<rparr> \<in> set (snake beforeFoodGame)"
    by (simp add: beforeFoodGame_def eats_def hitsWall_iff hitsSelf_def onFood_def)
  from generateFood_range [of "1 / 2" "1 / 2" beforeFoodGame "\<lparr>pos_x = 10, pos_y = 10\<rparr>"]
    generateFood_range [of "2484744621997515 / 2 ^ 52" "2844378712023471 / 2 ^ 52"
      beforeFoodGame "\<lparr>pos_x = 10, pos_y = 10\<rparr>"]
    r d a isDouble_rounds_up generateFood_half generateFood_rounds_up
  show ?thesis
    by simp
qed

section \<open>Properties of the continuous game\<close>

subsection \<open>What a filter with a pushing callback returns\<close>

lemma foodCallback_receiver:
  "\<exists>extra. receiver (foodCallback rnd player head f sc) = receiver sc @ extra"
  by (simp add: foodCallback_def)

lemma filterFood_scan:
  "k + n \<le> length (receiver sc) \<Longrightarrow>
   kept (filterFood rnd player head k n sc) =
     kept sc @ filter (\<lambda>f. \<not> eatsFood head f) (take n (drop k (receiver sc))) \<and>
   ate (filterFood rnd player head k n sc) =
     (ate sc \<or> list_ex (eatsFood head) (take n (drop k (receiver sc)))) \<and>
   scan_draws (filterFood rnd player head k n sc) =
     scan_draws sc + 4 * length (filter (eatsFood head) (take n (drop k (receiver sc)))) \<and>
   scan_score (filterFood rnd player head k n sc) =
     scan_score sc + (if player then int (length (filter (eatsFood head) (take n (drop k (receiver sc))))) else 0) \<and>
   length (receiver (filterFood rnd player head k n sc)) =
     length (receiver sc) + length (filter (eatsFood head) (take n (drop k (receiver sc))))"
proof (induction n arbitrary: k sc)
  case 0
  then show ?case by simp
next
  case (Suc n)
  let ?f = "receiver sc ! k"
  let ?sc = "foodCallback rnd player head ?f sc"
  from Suc.prems have k: "k < length (receiver sc)"
    by simp
  obtain extra where r: "receiver ?sc = receiver sc @ extra"
    using foodCallback_receiver by blast
  from Suc.prems r have le: "Suc k + n \<le> length (receiver ?sc)"
    by simp
  from Suc.prems r have slice: "take n (drop (Suc k) (receiver ?sc)) = take n (drop (Suc k) (receiver sc))"
    by simp
  from k have slice_Suc: "take (Suc n) (drop k (receiver sc)) = ?f # take n (drop (Suc k) (receiver sc))"
    by (simp add: Cons_nth_drop_Suc [symmetric])
  have step: "filterFood rnd player head k (Suc n) sc = filterFood rnd player head (Suc k) n ?sc"
    using k by simp
  have fields:
    "kept ?sc = (if eatsFood head ?f then kept sc else kept sc @ [?f])"
    "ate ?sc = (eatsFood head ?f \<or> ate sc)"
    "scan_draws ?sc = scan_draws sc + (if eatsFood head ?f then 4 else 0)"
    "scan_score ?sc = scan_score sc + (if eatsFood head ?f \<and> player then 1 else 0)"
    "length (receiver ?sc) = length (receiver sc) + (if eatsFood head ?f then 1 else 0)"
    by (simp_all add: foodCallback_def)
  show ?case
    unfolding step slice_Suc
    using Suc.IH [OF le]
    by (cases "eatsFood head ?f") (simp_all only: slice fields, auto)
qed


subsection \<open>The update of a living actor\<close>

lemma updateAI_alive:
  assumes "segments sn = h # rest"
  shows "\<exists>d. updateAI foods sn = Some (sn\<lparr>snake_direction := d\<rparr>)"
proof (cases "isPlayer sn \<or> isDead sn")
  case True
  then have "updateAI foods sn = Some (sn\<lparr>snake_direction := snake_direction sn\<rparr>)"
    by (simp add: updateAI_def)
  then show ?thesis ..
next
  case False
  show ?thesis
  proof (cases "nearestFood h foods")
    case None
    with False assms have "updateAI foods sn = Some (sn\<lparr>snake_direction := snake_direction sn\<rparr>)"
      by (simp add: updateAI_def)
    then show ?thesis ..
  next
    case (Some nf)
    with False assms have "updateAI foods sn = Some (sn\<lparr>snake_direction := snake_direction (the (updateAI foods sn))\<rparr>)"
      by (simp add: updateAI_def Let_def)
    then show ?thesis ..
  qed
qed

lemma mark_dead:
  "\<not> isDead r \<Longrightarrow> (if b then r\<lparr>isDead := True\<rparr> else r) = r\<lparr>isDead := b\<rparr>"
  by (cases r; cases b; simp)

lemma updateSnake_alive:
  assumes "i < length (snakesRef st)" and "\<not> isDead (snakesRef st ! i)"
    and "segments (snakesRef st ! i) = h # rest"
  shows "\<exists>d. steerPlayer st ((snakesRef st ! i)\<lparr>snake_direction := d\<rparr>) h = (snakesRef st ! i)\<lparr>snake_direction := d\<rparr> \<and>
     (let sn2 = (snakesRef st ! i)\<lparr>snake_direction := d\<rparr>;
          head = movedHead sn2 h;
          c = length (filter (eatsFood head) (foodRef st));
          sn3 = sn2\<lparr>segments := (if list_ex (eatsFood head) (foodRef st) then head # h # rest
                                  else butlast (head # h # rest))\<rparr>;
          dead = hitsOther ((snakesRef st)[i := sn3]) sn3 head
      in updateSnake rnd i st =
           Some (st\<lparr>snakesRef := (snakesRef st)[i := sn3\<lparr>isDead := dead\<rparr>],
                    foodRef := filter (\<lambda>f. \<not> eatsFood head f) (foodRef st),
                    slither_score := slither_score st + (if isPlayer sn2 then int c else 0),
                    draws := draws st + 4 * c,
                    slither_over := (if dead \<and> isPlayer sn2 then True else slither_over st),
                    slither_running := (if dead \<and> isPlayer sn2 then False else slither_running st)\<rparr>))"
proof -
  let ?sn = "snakesRef st ! i"
  from updateAI_alive [OF assms(3)] obtain d0 where ai: "updateAI (foodRef st) ?sn = Some (?sn\<lparr>snake_direction := d0\<rparr>)"
    by blast
  let ?sn1 = "?sn\<lparr>snake_direction := d0\<rparr>"
  obtain d where sp: "steerPlayer st ?sn1 h = ?sn\<lparr>snake_direction := d\<rparr>"
    by (cases "isPlayer ?sn") (simp_all add: steerPlayer_def Let_def)
  let ?sn2 = "?sn\<lparr>snake_direction := d\<rparr>"
  have idem: "steerPlayer st ?sn2 h = ?sn2"
    using sp by (cases "isPlayer ?sn") (auto simp: steerPlayer_def Let_def)
  let ?head = "movedHead ?sn2 h"
  let ?sc0 = "\<lparr>receiver = foodRef st, kept = [], ate = False,
               scan_score = slither_score st, scan_draws = draws st\<rparr>"
  have "0 + length (foodRef st) \<le> length (receiver ?sc0)"
    by simp
  from filterFood_scan [OF this, of rnd "isPlayer ?sn2" ?head]
  have scan:
    "kept (filterFood rnd (isPlayer ?sn2) ?head 0 (length (foodRef st)) ?sc0) =
       filter (\<lambda>f. \<not> eatsFood ?head f) (foodRef st)"
    "ate (filterFood rnd (isPlayer ?sn2) ?head 0 (length (foodRef st)) ?sc0) =
       list_ex (eatsFood ?head) (foodRef st)"
    "scan_draws (filterFood rnd (isPlayer ?sn2) ?head 0 (length (foodRef st)) ?sc0) =
       draws st + 4 * length (filter (eatsFood ?head) (foodRef st))"
    "scan_score (filterFood rnd (isPlayer ?sn2) ?head 0 (length (foodRef st)) ?sc0) =
       slither_score st + (if isPlayer ?sn2 then int (length (filter (eatsFood ?head) (foodRef st))) else 0)"
    by simp_all
  have "updateSnake rnd i st =
      (let sn2 = ?sn2;
           head = movedHead sn2 h;
           sc = filterFood rnd (isPlayer sn2) head 0 (length (foodRef st)) ?sc0;
           sn3 = sn2\<lparr>segments := (if ate sc then head # segments sn2
                                               else butlast (head # segments sn2))\<rparr>;
           dead = hitsOther ((snakesRef st)[i := sn3]) sn3 head;
           sn4 = (if dead then sn3\<lparr>isDead := True\<rparr> else sn3)
       in Some (st\<lparr>snakesRef := (snakesRef st)[i := sn4],
                               foodRef := kept sc,
                               slither_score := scan_score sc,
                               draws := scan_draws sc,
                               slither_over := (if dead \<and> isPlayer sn3 then True else slither_over st),
                               slither_running :=
                                 (if dead \<and> isPlayer sn3 then False else slither_running st)\<rparr>))"
    using assms ai sp by (simp add: updateSnake.simps)
  also have "\<dots> = 
      (let sn2 = ?sn2;
          head = movedHead sn2 h;
          c = length (filter (eatsFood head) (foodRef st));
          sn3 = sn2\<lparr>segments := (if list_ex (eatsFood head) (foodRef st) then head # h # rest
                                  else butlast (head # h # rest))\<rparr>;
          dead = hitsOther ((snakesRef st)[i := sn3]) sn3 head
      in Some (st\<lparr>snakesRef := (snakesRef st)[i := sn3\<lparr>isDead := dead\<rparr>],
                    foodRef := filter (\<lambda>f. \<not> eatsFood head f) (foodRef st),
                    slither_score := slither_score st + (if isPlayer sn2 then int c else 0),
                    draws := draws st + 4 * c,
                    slither_over := (if dead \<and> isPlayer sn2 then True else slither_over st),
                    slither_running := (if dead \<and> isPlayer sn2 then False else slither_running st)\<rparr>))"
    unfolding Let_def scan using assms(2,3) by (simp add: mark_dead)
  finally show ?thesis
    using idem unfolding Let_def by blast
qed

subsection \<open>The food pool\<close>

lemma sqrt_less_iff_sq: "0 \<le> b \<Longrightarrow> sqrt a < b \<longleftrightarrow> a < b\<^sup>2"
proof -
  assume b: "0 \<le> b"
  then have "sqrt (b\<^sup>2) = b" by simp
  then have "sqrt a < b \<longleftrightarrow> sqrt a < sqrt (b\<^sup>2)" by simp
  also have "\<dots> \<longleftrightarrow> a < b\<^sup>2" by (rule real_sqrt_less_iff)
  finally show ?thesis .
qed

lemma playerSnake_eq:
  "playerSnake = \<lparr>snake_id = PlayerId,
      segments = [\<lparr>pos_x = 1000, pos_y = 750\<rparr>, \<lparr>pos_x = 992, pos_y = 750\<rparr>,
                  \<lparr>pos_x = 984, pos_y = 750\<rparr>, \<lparr>pos_x = 976, pos_y = 750\<rparr>,
                  \<lparr>pos_x = 968, pos_y = 750\<rparr>],
      snake_color = Primary, isPlayer = True, snake_direction = 0, speed = 2, isDead = False\<rparr>"
  by (simp add: playerSnake_def createSnake_def noRandom_def WORLD_WIDTH_def WORLD_HEIGHT_def
      SEGMENT_SIZE_def upt_rec [of _ 5] upt_rec[of _ "numeral n" for n] )

lemma clamp_inactive:
  fixes c :: real
  assumes "- 1 \<le> c" and "c \<le> 1"
  shows "max 8 (min 1992 (1000 + c * 2)) = 1000 + c * 2"
    and "max 8 (min 1492 (750 + c * 2)) = 750 + c * 2"
  using assms by (simp_all add: max_def min_def)

lemma movedHead_centre:
  assumes "speed sn = 2"
  shows "movedHead sn \<lparr>pos_x = 1000, pos_y = 750\<rparr> =
         \<lparr>pos_x = 1000 + cos (snake_direction sn) * 2, pos_y = 750 + sin (snake_direction sn) * 2\<rparr>"
  using clamp_inactive(1) [of "cos (snake_direction sn)"] clamp_inactive(2) [of "sin (snake_direction sn)"]
  by (simp add: movedHead_def assms WORLD_WIDTH_def WORLD_HEIGHT_def SEGMENT_SIZE_def)

lemma eats_centreFood:
  "eatsFood \<lparr>pos_x = 1000 + cos d * 2, pos_y = 750 + sin d * 2\<rparr> centreFood"
proof -
  have "(cos d * 2)\<^sup>2 + (sin d * 2)\<^sup>2 = (cos d)\<^sup>2 * 4 + (sin d)\<^sup>2 * 4"
    by (simp add: power_mult_distrib)
  also have "\<dots> = 4"
    using sin_cos_squared_add [of d] by linarith
  finally have "(cos d * 2)\<^sup>2 + (sin d * 2)\<^sup>2 < 11\<^sup>2"
    by simp
  moreover have "sqrt ((cos d * 2)\<^sup>2 + (sin d * 2)\<^sup>2) < 11 \<longleftrightarrow>
      (cos d * 2)\<^sup>2 + (sin d * 2)\<^sup>2 < 11\<^sup>2"
    by (rule sqrt_less_iff_sq) simp
  ultimately have "sqrt ((cos d * 2)\<^sup>2 + (sin d * 2)\<^sup>2) < 11"
    by blast
  then show ?thesis
    by (simp add: eatsFood_def centreFood_def distance_def SEGMENT_SIZE_def)
qed

lemma spares_cornerFood:
  "\<not> eatsFood \<lparr>pos_x = 1000 + cos d * 2, pos_y = 750 + sin d * 2\<rparr> cornerFood"
proof -
  have "- 1 \<le> cos d"
    by simp
  then have "(998::real) \<le> 1000 + cos d * 2"
    by linarith
  then have "(998::real)\<^sup>2 \<le> (1000 + cos d * 2)\<^sup>2"
    by (intro power_mono) simp_all
  then have "(996004::real) \<le> (1000 + cos d * 2)\<^sup>2"
    by simp
  moreover have "0 \<le> (750 + sin d * 2)\<^sup>2"
    by (rule zero_le_power2)
  ultimately have "\<not> (1000 + cos d * 2)\<^sup>2 + (750 + sin d * 2)\<^sup>2 < 121"
    by linarith
  then have "\<not> (1000 + cos d * 2)\<^sup>2 + (750 + sin d * 2)\<^sup>2 < 11\<^sup>2"
    by simp
  moreover have "sqrt ((1000 + cos d * 2)\<^sup>2 + (750 + sin d * 2)\<^sup>2) < 11 \<longleftrightarrow>
      (1000 + cos d * 2)\<^sup>2 + (750 + sin d * 2)\<^sup>2 < 11\<^sup>2"
    by (rule sqrt_less_iff_sq) simp
  ultimately have "\<not> sqrt ((1000 + cos d * 2)\<^sup>2 + (750 + sin d * 2)\<^sup>2) < 11"
    by blast
  moreover have "(0 - (1000 + cos d * 2))\<^sup>2 = (1000 + cos d * 2)\<^sup>2"
    "(0 - (750 + sin d * 2))\<^sup>2 = (750 + sin d * 2)\<^sup>2"
    by (simp_all only: diff_0 power2_minus)
  ultimately have "\<not> sqrt ((0 - (1000 + cos d * 2))\<^sup>2 + (0 - (750 + sin d * 2))\<^sup>2) < 8 + 3"
    by simp
  then show ?thesis
    by (simp only: eatsFood_def cornerFood_def distance_def SEGMENT_SIZE_def Food.simps Position.simps
        not_False_eq_True)
qed

text \<open>
  C1 (every eaten food item is replaced, so the food array keeps its length of 200): the
  replacement is pushed onto the array that \<^verbatim>\<open>filter\<close> is reading, and the
  assignment replaces that array by the filtered one, so the replacement is lost. In
  \<open>firstFrame\<close> the player's first step, whatever the random source, takes its head
  within reach of the food at the centre of the world: the four draws for the replacement
  are made and the score goes up, and the pool has 199 items instead of 200.
\<close>

theorem updateSnake_food_pool_shrinks:
  "length (foodRef firstFrame) = FOOD_COUNT \<and>
   (\<exists>st'. updateSnake rnd 0 firstFrame = Some st' \<and>
      length (foodRef st') = 199 \<and> foodRef st' = replicate 199 cornerFood \<and>
      draws st' = draws firstFrame + 4 \<and> slither_score st' = 1)"
proof -
  let ?h = "\<lparr>pos_x = 1000, pos_y = 750\<rparr> :: real Position"
  have a: "0 < length (snakesRef firstFrame)" "\<not> isDead (snakesRef firstFrame ! 0)"
    "segments (snakesRef firstFrame ! 0) = ?h # tl (segments playerSnake)"
    by (simp_all add: firstFrame_def playerSnake_eq)
  have p: "snakesRef firstFrame ! 0 = playerSnake" and f: "foodRef firstFrame = centreFood # replicate 199 cornerFood"
    by (simp_all add: firstFrame_def)
  from updateSnake_alive [OF a, of rnd] obtain d where
    u: "let sn2 = playerSnake\<lparr>snake_direction := d\<rparr>;
          head = movedHead sn2 ?h;
          c = length (filter (eatsFood head) (foodRef firstFrame));
          sn3 = sn2\<lparr>segments := (if list_ex (eatsFood head) (foodRef firstFrame) then head # ?h # tl (segments playerSnake)
                                  else butlast (head # ?h # tl (segments playerSnake)))\<rparr>;
          dead = hitsOther ((snakesRef firstFrame)[0 := sn3]) sn3 head
      in updateSnake rnd 0 firstFrame =
           Some (firstFrame\<lparr>snakesRef := (snakesRef firstFrame)[0 := sn3\<lparr>isDead := dead\<rparr>],
                    foodRef := filter (\<lambda>f. \<not> eatsFood head f) (foodRef firstFrame),
                    slither_score := slither_score firstFrame + (if isPlayer sn2 then int c else 0),
                    draws := draws firstFrame + 4 * c,
                    slither_over := (if dead \<and> isPlayer sn2 then True else slither_over firstFrame),
                    slither_running := (if dead \<and> isPlayer sn2 then False else slither_running firstFrame)\<rparr>)"
    unfolding p by blast
  have h: "movedHead (playerSnake\<lparr>snake_direction := d\<rparr>) ?h = \<lparr>pos_x = 1000 + cos d * 2, pos_y = 750 + sin d * 2\<rparr>"
    using movedHead_centre [of "playerSnake\<lparr>snake_direction := d\<rparr>"] by (simp add: playerSnake_eq)
  have pl: "isPlayer playerSnake" "slither_score firstFrame = 0"
    by (simp_all add: playerSnake_eq firstFrame_def)
  from u show ?thesis
    unfolding Let_def h f
    by (simp add: eats_centreFood spares_cornerFood pl FOOD_COUNT_def)
qed

subsection \<open>The new head\<close>

lemma movedHead_bounds:
  "8 \<le> pos_x (movedHead sn h) \<and> pos_x (movedHead sn h) \<le> 1992 \<and>
   8 \<le> pos_y (movedHead sn h) \<and> pos_y (movedHead sn h) \<le> 1492"
  by (simp add: movedHead_def WORLD_WIDTH_def WORLD_HEIGHT_def SEGMENT_SIZE_def)

text \<open>
  C6: for every living actor, \<^verbatim>\<open>updateSnake\<close> returns, and the new head is the
  previous head plus (speed \<open>\<cdot>\<close> cos direction, speed \<open>\<cdot>\<close> sin direction), each
  coordinate clamped, x to the range from 8 to 1992 and y to the range from 8 to 1492,
  with no wraparound; it is prepended to the segments (of which the last is dropped
  unless food was eaten). The direction is the one the actor has after the steering of
  this frame, which is the one stored in it afterwards.
\<close>

theorem updateSnake_head:
  assumes "i < length (snakesRef st)" and "\<not> isDead (snakesRef st ! i)"
    and "segments (snakesRef st ! i) = h # rest"
  shows "\<exists>st'. updateSnake rnd i st = Some st' \<and>
     (let d = snake_direction (snakesRef st' ! i);
          v = speed (snakesRef st ! i);
          head = \<lparr>pos_x = max 8 (min 1992 (pos_x h + v * cos d)),
                  pos_y = max 8 (min 1492 (pos_y h + v * sin d))\<rparr>
      in 8 \<le> pos_x head \<and> pos_x head \<le> 1992 \<and> 8 \<le> pos_y head \<and> pos_y head \<le> 1492 \<and>
         segments (snakesRef st' ! i) =
           head # (if list_ex (eatsFood head) (foodRef st) then h # rest else butlast (h # rest)))"
proof -
  from updateSnake_alive [OF assms, of rnd] obtain d where
    u: "let sn2 = (snakesRef st ! i)\<lparr>snake_direction := d\<rparr>;
          head = movedHead sn2 h;
          c = length (filter (eatsFood head) (foodRef st));
          sn3 = sn2\<lparr>segments := (if list_ex (eatsFood head) (foodRef st) then head # h # rest
                                  else butlast (head # h # rest))\<rparr>;
          dead = hitsOther ((snakesRef st)[i := sn3]) sn3 head
      in updateSnake rnd i st =
           Some (st\<lparr>snakesRef := (snakesRef st)[i := sn3\<lparr>isDead := dead\<rparr>],
                    foodRef := filter (\<lambda>f. \<not> eatsFood head f) (foodRef st),
                    slither_score := slither_score st + (if isPlayer sn2 then int c else 0),
                    draws := draws st + 4 * c,
                    slither_over := (if dead \<and> isPlayer sn2 then True else slither_over st),
                    slither_running := (if dead \<and> isPlayer sn2 then False else slither_running st)\<rparr>)"
    by blast
  let ?sn2 = "(snakesRef st ! i)\<lparr>snake_direction := d\<rparr>"
  have m: "movedHead ?sn2 h =
      \<lparr>pos_x = max 8 (min 1992 (pos_x h + speed (snakesRef st ! i) * cos d)),
       pos_y = max 8 (min 1492 (pos_y h + speed (snakesRef st ! i) * sin d))\<rparr>"
    by (simp add: movedHead_def WORLD_WIDTH_def WORLD_HEIGHT_def SEGMENT_SIZE_def mult.commute)
  from movedHead_bounds [of ?sn2 h] u assms(1) show ?thesis
    unfolding Let_def m by simp
qed

lemma noFoodFrame_left:
  "updateSnake noRandom 0 noFoodFrame =
     Some (noFoodFrame\<lparr>snakesRef :=
       [leftwardSnake\<lparr>segments := [\<lparr>pos_x = 8, pos_y = 200\<rparr>, \<lparr>pos_x = 9, pos_y = 200\<rparr>,
                                     \<lparr>pos_x = 11, pos_y = 200\<rparr>]\<rparr>,
        rightwardSnake]\<rparr>)"
  by (simp add: updateSnake.simps noFoodFrame_def leftwardSnake_def rightwardSnake_def
      updateAI_def nearestFood_def steerPlayer_def movedHead_def hitsOther_def distance_def
      WORLD_WIDTH_def WORLD_HEIGHT_def SEGMENT_SIZE_def sqrt_less_iff_sq)

lemma noFoodFrame_right:
  "updateSnake noRandom 1 noFoodFrame =
     Some (noFoodFrame\<lparr>snakesRef :=
       [leftwardSnake,
        rightwardSnake\<lparr>segments := [\<lparr>pos_x = 1002, pos_y = 700\<rparr>, \<lparr>pos_x = 1000, pos_y = 700\<rparr>,
                                      \<lparr>pos_x = 998, pos_y = 700\<rparr>]\<rparr>]\<rparr>)"
  by (simp add: updateSnake.simps noFoodFrame_def leftwardSnake_def rightwardSnake_def
      updateAI_def nearestFood_def steerPlayer_def movedHead_def hitsOther_def distance_def
      WORLD_WIDTH_def WORLD_HEIGHT_def SEGMENT_SIZE_def sqrt_less_iff_sq)

theorem updateSnake_head_witness:
  "0 < length (snakesRef noFoodFrame) \<and> \<not> isDead (snakesRef noFoodFrame ! 0) \<and>
   segments (snakesRef noFoodFrame ! 0) = \<lparr>pos_x = 9, pos_y = 200\<rparr> # tl (segments leftwardSnake) \<and>
   (\<exists>st'. updateSnake noRandom 0 noFoodFrame = Some st' \<and>
      snake_direction (snakesRef st' ! 0) = pi \<and>
      segments (snakesRef st' ! 0) =
        [\<lparr>pos_x = 8, pos_y = 200\<rparr>, \<lparr>pos_x = 9, pos_y = 200\<rparr>, \<lparr>pos_x = 11, pos_y = 200\<rparr>]) \<and>
   1 < length (snakesRef noFoodFrame) \<and> \<not> isDead (snakesRef noFoodFrame ! 1) \<and>
   segments (snakesRef noFoodFrame ! 1) = \<lparr>pos_x = 1000, pos_y = 700\<rparr> # tl (segments rightwardSnake) \<and>
   (\<exists>st'. updateSnake noRandom 1 noFoodFrame = Some st' \<and>
      snake_direction (snakesRef st' ! 1) = 0 \<and>
      segments (snakesRef st' ! 1) =
        [\<lparr>pos_x = 1002, pos_y = 700\<rparr>, \<lparr>pos_x = 1000, pos_y = 700\<rparr>, \<lparr>pos_x = 998, pos_y = 700\<rparr>])"
proof -
  have a: "0 < length (snakesRef noFoodFrame)" "\<not> isDead (snakesRef noFoodFrame ! 0)"
    "segments (snakesRef noFoodFrame ! 0) = \<lparr>pos_x = 9, pos_y = 200\<rparr> # tl (segments leftwardSnake)"
    by (simp_all add: noFoodFrame_def leftwardSnake_def)
  have b: "1 < length (snakesRef noFoodFrame)" "\<not> isDead (snakesRef noFoodFrame ! 1)"
    "segments (snakesRef noFoodFrame ! 1) = \<lparr>pos_x = 1000, pos_y = 700\<rparr> # tl (segments rightwardSnake)"
    by (simp_all add: noFoodFrame_def rightwardSnake_def)
  have f: "foodRef noFoodFrame = []" "speed (snakesRef noFoodFrame ! 0) = 2"
    "speed (snakesRef noFoodFrame ! 1) = 2"
    "tl (segments leftwardSnake) = [\<lparr>pos_x = 11, pos_y = 200\<rparr>, \<lparr>pos_x = 13, pos_y = 200\<rparr>]"
    "tl (segments rightwardSnake) = [\<lparr>pos_x = 998, pos_y = 700\<rparr>, \<lparr>pos_x = 996, pos_y = 700\<rparr>]"
    by (simp_all add: noFoodFrame_def leftwardSnake_def rightwardSnake_def)
  have l: "\<exists>st'. updateSnake noRandom 0 noFoodFrame = Some st' \<and>
      snake_direction (snakesRef st' ! 0) = pi \<and>
      segments (snakesRef st' ! 0) =
        [\<lparr>pos_x = 8, pos_y = 200\<rparr>, \<lparr>pos_x = 9, pos_y = 200\<rparr>, \<lparr>pos_x = 11, pos_y = 200\<rparr>]"
    using updateSnake_head [OF a, of noRandom] noFoodFrame_left
    by (auto simp: Let_def f leftwardSnake_def)
  have r: "\<exists>st'. updateSnake noRandom 1 noFoodFrame = Some st' \<and>
      snake_direction (snakesRef st' ! 1) = 0 \<and>
      segments (snakesRef st' ! 1) =
        [\<lparr>pos_x = 1002, pos_y = 700\<rparr>, \<lparr>pos_x = 1000, pos_y = 700\<rparr>, \<lparr>pos_x = 998, pos_y = 700\<rparr>]"
    using updateSnake_head [OF b, of noRandom] noFoodFrame_right
    by (auto simp: Let_def f rightwardSnake_def)
  from a b l r show ?thesis
    by blast
qed

subsection \<open>The population of actors\<close>

lemma snakeCallback_receiver:
  "\<exists>extra. snake_receiver (snakeCallback rnd now sn sc) = snake_receiver sc @ extra"
  by (simp add: snakeCallback_def createRandomSnake_def createSnake_def Let_def)

lemma filterSnakes_scan:
  "k + n \<le> length (snake_receiver sc) \<Longrightarrow>
   snake_kept (filterSnakes rnd clock k n sc) =
     snake_kept sc @ filter (\<lambda>s. \<not> (\<not> isPlayer s \<and> isDead s)) (take n (drop k (snake_receiver sc))) \<and>
   snake_draws (filterSnakes rnd clock k n sc) =
     snake_draws sc + 4 * length (filter (\<lambda>s. \<not> isPlayer s \<and> isDead s) (take n (drop k (snake_receiver sc)))) \<and>
   length (snake_receiver (filterSnakes rnd clock k n sc)) =
     length (snake_receiver sc) + length (filter (\<lambda>s. \<not> isPlayer s \<and> isDead s) (take n (drop k (snake_receiver sc))))"
proof (induction n arbitrary: k sc)
  case 0
  then show ?case by simp
next
  case (Suc n)
  let ?s = "snake_receiver sc ! k"
  let ?sc = "snakeCallback rnd (clock k) ?s sc"
  from Suc.prems have k: "k < length (snake_receiver sc)"
    by simp
  obtain extra where r: "snake_receiver ?sc = snake_receiver sc @ extra"
    using snakeCallback_receiver by blast
  from Suc.prems r have le: "Suc k + n \<le> length (snake_receiver ?sc)"
    by simp
  from Suc.prems r
  have slice: "take n (drop (Suc k) (snake_receiver ?sc)) = take n (drop (Suc k) (snake_receiver sc))"
    by simp
  from k have slice_Suc:
    "take (Suc n) (drop k (snake_receiver sc)) = ?s # take n (drop (Suc k) (snake_receiver sc))"
    by (simp add: Cons_nth_drop_Suc [symmetric])
  have step: "filterSnakes rnd clock k (Suc n) sc = filterSnakes rnd clock (Suc k) n ?sc"
    using k by simp
  have fields:
    "snake_kept ?sc = (if \<not> isPlayer ?s \<and> isDead ?s then snake_kept sc else snake_kept sc @ [?s])"
    "snake_draws ?sc = snake_draws sc + (if \<not> isPlayer ?s \<and> isDead ?s then 4 else 0)"
    "length (snake_receiver ?sc) =
       length (snake_receiver sc) + (if \<not> isPlayer ?s \<and> isDead ?s then 1 else 0)"
    by (simp_all add: snakeCallback_def createRandomSnake_def createSnake_def Let_def)
  show ?case
    unfolding step slice_Suc
    using Suc.IH [OF le]
    by (cases "\<not> isPlayer ?s \<and> isDead ?s") (simp_all only: slice fields, auto)
qed

lemma replaceDeadSnakes_result:
  "snakesRef (replaceDeadSnakes rnd clock st) =
     filter (\<lambda>s. \<not> (\<not> isPlayer s \<and> isDead s)) (snakesRef st) \<and>
   draws (replaceDeadSnakes rnd clock st) =
     draws st + 4 * length (filter (\<lambda>s. \<not> isPlayer s \<and> isDead s) (snakesRef st))"
proof -
  let ?sc0 = "\<lparr>snake_receiver = snakesRef st, snake_kept = [], snake_draws = draws st\<rparr>"
  have "0 + length (snakesRef st) \<le> length (snake_receiver ?sc0)"
    by simp
  from filterSnakes_scan [OF this, of rnd clock] show ?thesis
    by (simp add: replaceDeadSnakes_def Let_def)
qed

lemma aiSnake_fields: "\<not> isPlayer (aiSnake i)" "\<not> isDead (aiSnake i)"
  by (simp_all add: aiSnake_def createSnake_def Let_def)

text \<open>
  C2 (every dead actor that is not the player is replaced by a fresh one, so the array of
  actors keeps its length): the replacement is pushed onto the array that
  \<^verbatim>\<open>filter\<close> is reading and is lost with it, as for the food. In
  \<open>deadAIFrame\<close>, six actors of which \<^verbatim>\<open>ai_0\<close> is dead, the phase makes the
  four draws for the replacement and leaves five actors: the player and the four others.
\<close>

theorem replaceDeadSnakes_population_shrinks:
  "length (snakesRef deadAIFrame) = 1 + AI_SNAKE_COUNT \<and>
   snakesRef (replaceDeadSnakes rnd clock deadAIFrame) = playerSnake # map aiSnake [1..<AI_SNAKE_COUNT] \<and>
   length (snakesRef (replaceDeadSnakes rnd clock deadAIFrame)) = 5 \<and>
   draws (replaceDeadSnakes rnd clock deadAIFrame) = draws deadAIFrame + 4"
proof -
  have s: "snakesRef deadAIFrame =
      playerSnake # (aiSnake 0)\<lparr>isDead := True\<rparr> # map aiSnake [1..<AI_SNAKE_COUNT]"
    by (simp add: deadAIFrame_def)
  have keep: "filter (\<lambda>s. \<not> (\<not> isPlayer s \<and> isDead s)) (map aiSnake [1..<AI_SNAKE_COUNT]) =
      map aiSnake [1..<AI_SNAKE_COUNT]"
    by (simp add: filter_map o_def aiSnake_fields)
  have drop: "filter (\<lambda>s. \<not> isPlayer s \<and> isDead s) (map aiSnake [1..<AI_SNAKE_COUNT]) = []"
    by (simp add: filter_map o_def aiSnake_fields)
  from replaceDeadSnakes_result [of rnd clock deadAIFrame] show ?thesis
    unfolding s keep
    by (simp add: keep drop aiSnake_fields playerSnake_eq AI_SNAKE_COUNT_def)
qed

text \<open>
  A whole frame shows the same loss. In \<open>collisionFrame\<close> the player moves towards
  the pointer, the other actor moves onto the player's fourth segment and is marked dead,
  the camera follows the player, and the removal phase makes the four draws for a
  replacement and returns an array that holds the player alone.
\<close>

lemma sqrt_25_16: "sqrt (25 / 16) = 5 / 4"
  by (rule real_sqrt_unique) (simp_all add: power2_eq_square)

lemma atan2_first_frame: "atan2 (- 750) (- 1000) = arctan (3 / 4) - pi"
  by (simp add: atan2_def)

lemma cos_arctan_3_4: "cos (arctan (3 / 4)) = 4 / 5"
proof -
  have "cos (arctan (3 / 4 :: real)) = 1 / sqrt (1 + (3 / 4)\<^sup>2)"
    by (rule cos_arctan)
  also have "1 + (3 / 4 :: real)\<^sup>2 = 25 / 16"
    by (simp add: power2_eq_square)
  finally show ?thesis
    by (simp add: sqrt_25_16)
qed

lemma sin_arctan_3_4: "sin (arctan (3 / 4)) = 3 / 5"
proof -
  have "sin (arctan (3 / 4 :: real)) = (3 / 4) / sqrt (1 + (3 / 4)\<^sup>2)"
    by (rule sin_arctan)
  also have "1 + (3 / 4 :: real)\<^sup>2 = 25 / 16"
    by (simp add: power2_eq_square)
  finally show ?thesis
    by (simp add: sqrt_25_16)
qed

lemma collision_step_player:
  "updateSnake noRandom 0 collisionFrame =
     Some (collisionFrame\<lparr>snakesRef := [movedPlayer, chaserSnake]\<rparr>)"
  by (simp add: updateSnake.simps collisionFrame_def playerSnake_eq chaserSnake_def movedPlayer_def
      updateAI_def steerPlayer_def movedHead_def hitsOther_def distance_def
      SLITHER_CANVAS_WIDTH_def SLITHER_CANVAS_HEIGHT_def
      WORLD_WIDTH_def WORLD_HEIGHT_def SEGMENT_SIZE_def sqrt_less_iff_sq
      atan2_first_frame cos_arctan_3_4 sin_arctan_3_4 power2_eq_square)

lemma collision_step_chaser:
  "updateSnake noRandom (Suc 0) (collisionFrame\<lparr>snakesRef := [movedPlayer, chaserSnake]\<rparr>) =
     Some (collisionFrame\<lparr>snakesRef := [movedPlayer, deadChaser]\<rparr>)"
  by (simp add: updateSnake.simps collisionFrame_def playerSnake_eq chaserSnake_def movedPlayer_def
      deadChaser_def updateAI_def nearestFood_def steerPlayer_def movedHead_def hitsOther_def distance_def
      WORLD_WIDTH_def WORLD_HEIGHT_def SEGMENT_SIZE_def sqrt_less_iff_sq)

lemma collision_forEach:
  "forEachUpdate noRandom 0 (Suc (Suc 0)) collisionFrame =
     Some (collisionFrame\<lparr>snakesRef := [movedPlayer, deadChaser]\<rparr>)"
  by (simp add: collision_step_player collision_step_chaser)

lemma collision_camera:
  "updateCamera (collisionFrame\<lparr>snakesRef := [movedPlayer, deadChaser]\<rparr>) =
     Some (collisionFrame\<lparr>snakesRef := [movedPlayer, deadChaser],
             camera := \<lparr>pos_x = 2992 / 5, pos_y = 2244 / 5\<rparr>\<rparr>)"
  by (simp add: updateCamera_def collisionFrame_def movedPlayer_def playerSnake_eq
      SLITHER_CANVAS_WIDTH_def SLITHER_CANVAS_HEIGHT_def)

lemma gameLoop_collision_frame:
  "length (snakesRef collisionFrame) = 2 \<and>
   gameLoop noRandom clock collisionFrame =
     Some (collisionFrame\<lparr>snakesRef := [movedPlayer],
             camera := \<lparr>pos_x = 2992 / 5, pos_y = 2244 / 5\<rparr>, draws := 4\<rparr>)"
proof -
  have run: "slither_running collisionFrame" "\<not> slither_over collisionFrame"
    by (simp_all add: collisionFrame_def)
  have alive: "isPlayer movedPlayer" "\<not> isPlayer deadChaser" "isDead deadChaser"
    by (simp_all add: movedPlayer_def deadChaser_def chaserSnake_def playerSnake_eq)
  have d: "draws collisionFrame = 0" "length (snakesRef collisionFrame) = Suc (Suc 0)"
    by (simp_all add: collisionFrame_def)
  from replaceDeadSnakes_result [of noRandom clock
      "collisionFrame\<lparr>snakesRef := [movedPlayer, deadChaser],
             camera := \<lparr>pos_x = 2992 / 5, pos_y = 2244 / 5\<rparr>\<rparr>"]
  have "replaceDeadSnakes noRandom clock
      (collisionFrame\<lparr>snakesRef := [movedPlayer, deadChaser],
             camera := \<lparr>pos_x = 2992 / 5, pos_y = 2244 / 5\<rparr>\<rparr>) =
      collisionFrame\<lparr>snakesRef := [movedPlayer],
             camera := \<lparr>pos_x = 2992 / 5, pos_y = 2244 / 5\<rparr>, draws := 4\<rparr>"
    by (simp add: replaceDeadSnakes_def Let_def alive d)
  with run d show ?thesis
    by (simp add: gameLoop.simps collision_step_player collision_step_chaser collision_camera)
qed

subsection \<open>Neither array ever grows\<close>

text \<open>
  Whatever the state, an update of one actor keeps the number of actors and never
  lengthens the food array, and a frame lengthens neither array; both arrays have their
  nominal sizes only when \<^verbatim>\<open>initializeGame\<close> has just built them.
\<close>

lemma updateSnake_no_segments:
  assumes "i < length (snakesRef st)" and "\<not> isDead (snakesRef st ! i)"
    and "segments (snakesRef st ! i) = []"
  shows "updateSnake rnd i st = None"
  using assms by (auto simp: updateSnake.simps updateAI_def split: option.splits)

lemma updateSnake_sizes:
  assumes "updateSnake rnd i st = Some st'"
  shows "length (snakesRef st') = length (snakesRef st) \<and>
         length (foodRef st') \<le> length (foodRef st)"
proof -
  from assms have i: "i < length (snakesRef st)"
    by (auto simp: updateSnake.simps split: if_splits)
  show ?thesis
  proof (cases "isDead (snakesRef st ! i)")
    case True
    with assms i have "st' = st"
      by (simp add: updateSnake.simps)
    then show ?thesis by simp
  next
    case False
    show ?thesis
    proof (cases "segments (snakesRef st ! i)")
      case Nil
      from updateSnake_no_segments [OF i False Nil, of rnd] assms show ?thesis
        by simp
    next
      case (Cons h rest)
      from updateSnake_alive [OF i False Cons, of rnd] assms show ?thesis
        by (auto simp: Let_def)
    qed
  qed
qed

lemma forEachUpdate_sizes:
  "forEachUpdate rnd k n st = Some st' \<Longrightarrow>
   length (snakesRef st') = length (snakesRef st) \<and> length (foodRef st') \<le> length (foodRef st)"
proof (induction n arbitrary: k st)
  case 0
  then show ?case by simp
next
  case (Suc n)
  from Suc.prems obtain st1 where 1: "updateSnake rnd k st = Some st1"
    and 2: "forEachUpdate rnd (Suc k) n st1 = Some st'"
    by (auto split: option.splits)
  from updateSnake_sizes [OF 1] Suc.IH [OF 2] show ?case
    by simp
qed

lemma updateCamera_sizes:
  "updateCamera st = Some st' \<Longrightarrow> snakesRef st' = snakesRef st \<and> foodRef st' = foodRef st"
  by (auto simp: updateCamera_def split: option.splits if_splits list.splits)

lemma gameLoop_sizes:
  assumes "gameLoop rnd clock st = Some st'"
  shows "length (snakesRef st') \<le> length (snakesRef st) \<and>
         length (foodRef st') \<le> length (foodRef st)"
proof (cases "\<not> slither_running st \<or> slither_over st")
  case True
  with assms have "st' = st"
    by (auto simp: gameLoop.simps)
  then show ?thesis by simp
next
  case False
  with assms obtain st1 st2 where 1: "forEachUpdate rnd 0 (length (snakesRef st)) st = Some st1"
    and 2: "updateCamera st1 = Some st2" and 3: "st' = replaceDeadSnakes rnd clock st2"
    by (auto simp: gameLoop.simps split: option.splits)
  have "length (snakesRef st') \<le> length (snakesRef st2)"
    unfolding 3 by (simp add: replaceDeadSnakes_result)
  moreover have "foodRef st' = foodRef st2"
    unfolding 3 by (simp add: replaceDeadSnakes_def Let_def)
  ultimately show ?thesis
    using forEachUpdate_sizes [OF 1] updateCamera_sizes [OF 2] by simp
qed

lemma createAISnakes_length:
  "length (fst (createAISnakes rnd i k (snakes, n))) = length snakes + k"
  by (induction k arbitrary: i snakes n) (simp_all add: split_beta)

lemma initializeGame_sizes:
  "length (snakesRef (initializeGame rnd st)) = 1 + AI_SNAKE_COUNT \<and>
   length (foodRef (initializeGame rnd st)) = FOOD_COUNT"
  using createAISnakes_length [of rnd 0 AI_SNAKE_COUNT]
  by (simp add: initializeGame_def slither_generateFood_def split_beta Let_def)

end
